theory Spec2Isabelle
  imports Main "HOL-Library.Word"
begin

unbundle bit_operations_syntax

section \<open>Data model of shadowtor-preload.c\<close>

text \<open>
  The preload library keeps one process-wide \<open>PreloadGlobal\<close> value and one
  \<open>PreloadWorker\<close> per thread, stored behind a thread-private key. Every entry point
  that touches the global value does so between \<open>G_LOCK\<close> and \<open>G_UNLOCK\<close>, so a
  call is one atomic step on the state below and an interleaving of threads is a
  sequence of such steps, each tagged with the calling thread.

  \<open>gint\<close> and \<open>int\<close> are 32-bit; they are words here, read as signed with \<open>sint\<close>.
  Calls that leave the library (delegates reached through the vtable, glib and
  logging primitives) are recorded in the order they happen in the \<open>trace\<close> field.
\<close>

type_synonym gint = "32 word"
type_synonym tid = nat
type_synonym addr = nat

text \<open>The function-pointer types of the source, as the value each delegate returns.\<close>

type_synonym spawn_func_fp = "unit \<Rightarrow> gint"
type_synonym write_str_to_file_fp = "string \<Rightarrow> string \<Rightarrow> gint \<Rightarrow> gint"
type_synonym crypto_global_init_fp = "gint \<Rightarrow> string option \<Rightarrow> string option \<Rightarrow> gint"
type_synonym crypto_global_cleanup_fp = "unit \<Rightarrow> gint"
type_synonym crypto_early_init_fp = "unit \<Rightarrow> gint"
type_synonym crypto_seed_rng_fp = "gint \<Rightarrow> gint"
type_synonym crypto_init_siphash_key_fp = "unit \<Rightarrow> gint"
type_synonym tor_ssl_global_init_fp = "unit \<Rightarrow> unit"

text \<open>\<open>struct _InterposeFuncs\<close>: a null function pointer is \<open>None\<close>.\<close>

record InterposeFuncs =
  vt_spawn_func :: "spawn_func_fp option"
  vt_write_str_to_file :: "write_str_to_file_fp option"
  vt_crypto_global_init :: "crypto_global_init_fp option"
  vt_crypto_global_cleanup :: "crypto_global_cleanup_fp option"
  vt_crypto_early_init :: "crypto_early_init_fp option"
  vt_crypto_seed_rng :: "crypto_seed_rng_fp option"
  vt_crypto_init_siphash_key :: "crypto_init_siphash_key_fp option"
  vt_tor_ssl_global_init :: "tor_ssl_global_init_fp option"

text \<open>
  A loaded module, as far as \<open>g_module_symbol\<close> is asked about it: the eight names the
  source looks up, each resolving to a function or not at all.
\<close>

record GModule =
  sym_spawn_func :: "spawn_func_fp option"
  sym_write_str_to_file :: "write_str_to_file_fp option"
  sym_crypto_global_init :: "crypto_global_init_fp option"
  sym_crypto_global_cleanup :: "crypto_global_cleanup_fp option"
  sym_tor_ssl_global_init :: "tor_ssl_global_init_fp option"
  sym_crypto_early_init :: "crypto_early_init_fp option"
  sym_crypto_seed_rng :: "crypto_seed_rng_fp option"
  sym_crypto_init_siphash_key :: "crypto_init_siphash_key_fp option"

text \<open>\<open>struct _PreloadWorker\<close>.\<close>

record PreloadWorker =
  handle :: "GModule option"
  vtable :: InterposeFuncs
  consensusCounter :: gint

text \<open>What \<open>g_new0(PreloadWorker, 1)\<close> yields: every field zero.\<close>

definition null_vtable :: InterposeFuncs where
  "null_vtable = \<lparr> vt_spawn_func = None, vt_write_str_to_file = None,
     vt_crypto_global_init = None, vt_crypto_global_cleanup = None,
     vt_crypto_early_init = None, vt_crypto_seed_rng = None,
     vt_crypto_init_siphash_key = None, vt_tor_ssl_global_init = None \<rparr>"

definition new0_PreloadWorker :: PreloadWorker where
  "new0_PreloadWorker = \<lparr> handle = None, vtable = null_vtable, consensusCounter = 0 \<rparr>"

text \<open>
  One \<open>GRWLock\<close> cell of the lock array: zeroed by \<open>g_new0\<close>, then initialised by
  \<open>g_rw_lock_init\<close>.
\<close>

datatype GRWLock = RW_zeroed | RW_initialised

text \<open>\<open>struct _PreloadGlobal\<close>; a null \<open>cryptoThreadLocks\<close> pointer is \<open>None\<close>.\<close>

record PreloadGlobal =
  initialized :: bool
  sslInitializedEarly :: bool
  sslInitializedGlobal :: bool
  nTorCryptoNodes :: gint
  nThreads :: gint
  numCryptoThreadLocks :: gint
  cryptoThreadLocks :: "GRWLock list option"

text \<open>The static initialiser of \<open>shadowtorpreloadGlobalState\<close>: all fields zero.\<close>

definition shadowtorpreloadGlobalState0 :: PreloadGlobal where
  "shadowtorpreloadGlobalState0 = \<lparr> initialized = False, sslInitializedEarly = False,
     sslInitializedGlobal = False, nTorCryptoNodes = 0, nThreads = 0,
     numCryptoThreadLocks = 0, cryptoThreadLocks = None \<rparr>"

text \<open>Calls that leave the preload library, in the order they are made.\<close>

datatype event =
    Call_tor_ssl_global_init tid
  | Call_crypto_global_init tid gint "string option" "string option"
  | Call_crypto_global_cleanup tid
  | Call_crypto_early_init tid
  | Call_crypto_seed_rng tid gint
  | Call_crypto_init_siphash_key tid
  | Call_write_str_to_file tid string string gint
  | G_file_set_contents string string
  | Log_warn string
  | G_new0_locks nat
  | G_free_locks
  | G_rw_lock_reader_lock nat
  | G_rw_lock_writer_lock nat
  | G_rw_lock_reader_unlock nat
  | G_rw_lock_writer_unlock nat

text \<open>
  The whole state: the global value, the thread-private slots behind
  \<open>threadPreloadWorkerKey\<close> (for each thread that has one, the address of its worker
  block and the block's contents) and the trace.
\<close>

record sys_state =
  shadowtorpreloadGlobalState :: PreloadGlobal
  threadPreloadWorkerKey :: "(tid \<times> addr \<times> PreloadWorker) list"
  trace :: "event list"

definition sys_state0 :: sys_state where
  "sys_state0 = \<lparr> shadowtorpreloadGlobalState = shadowtorpreloadGlobalState0, threadPreloadWorkerKey = [], trace = [] \<rparr>"

text \<open>
  How a call ends: it returns; or an assertion or a glib check fails and the process
  aborts with a diagnostic; or the code runs into behaviour C leaves undefined (a call
  through a null function pointer, a lock cell outside the array).
\<close>

datatype fatal =
    Assert_failed string
  | Alloc_overflow

datatype undefined_behaviour =
    Null_function_call string
  | Out_of_bounds_lock int

datatype 'a outcome =
    Returns 'a
  | Fatal fatal
  | Undefined undefined_behaviour

definition emit :: "event list \<Rightarrow> sys_state \<Rightarrow> sys_state" where
  "emit es s = s\<lparr> trace := trace s @ es \<rparr>"

section \<open>The per-thread worker\<close>

text \<open>
  \<open>_shadowtorpreload_getWorker\<close>: the thread's slot if it is set, otherwise a fresh
  zeroed block stored in the slot. The argument \<open>a\<close> is the address \<open>g_new0\<close> hands out
  should this call allocate (\<open>g_new0\<close> aborts rather than return null, so the
  \<open>g_assert\<close> that follows cannot fail).
\<close>

definition shadowtorpreload_getWorker :: "tid \<Rightarrow> addr \<Rightarrow> sys_state \<Rightarrow> (addr \<times> PreloadWorker) \<times> sys_state" where
  "shadowtorpreload_getWorker t a s =
     (case map_of (threadPreloadWorkerKey s) t of
        Some pw \<Rightarrow> (pw, s)
      | None \<Rightarrow> ((a, new0_PreloadWorker), s\<lparr> threadPreloadWorkerKey := (t, a, new0_PreloadWorker) # threadPreloadWorkerKey s \<rparr>))"

text \<open>A store through the worker pointer: the block keeps its address.\<close>

definition setWorker :: "tid \<Rightarrow> PreloadWorker \<Rightarrow> sys_state \<Rightarrow> sys_state" where
  "setWorker t w s =
     s\<lparr> threadPreloadWorkerKey := map (\<lambda>(u, p, v). if u = t then (u, p, w) else (u, p, v)) (threadPreloadWorkerKey s) \<rparr>"

text \<open>
  The key is declared \<open>G_PRIVATE_INIT(g_free)\<close>: when a thread exits its worker block
  is freed and its slot is gone.
\<close>

definition threadExit :: "tid \<Rightarrow> sys_state \<Rightarrow> sys_state" where
  "threadExit t s = s\<lparr> threadPreloadWorkerKey := filter (\<lambda>(u, p, v). u \<noteq> t) (threadPreloadWorkerKey s) \<rparr>"

section \<open>Interposed tor functions\<close>

text \<open>\<open>spawn_func\<close>: the body is the single statement \<open>return -1\<close>.\<close>

definition spawn_func :: "'f \<Rightarrow> 'd \<Rightarrow> sys_state \<Rightarrow> (gint \<times> sys_state) outcome" where
  "spawn_func func data s = Returns (- 1, s)"

section \<open>Global init and cleanup\<close>

text \<open>\<open>crypto_global_init\<close>, between \<open>G_LOCK\<close> and \<open>G_UNLOCK\<close> of the primary lock.\<close>

definition crypto_global_init ::
  "tid \<Rightarrow> addr \<Rightarrow> gint \<Rightarrow> string option \<Rightarrow> string option \<Rightarrow> sys_state \<Rightarrow> (gint \<times> sys_state) outcome" where
  "crypto_global_init t a useAccel accelName accelDir s =
     (let g = shadowtorpreloadGlobalState s;
          s1 = s\<lparr> shadowtorpreloadGlobalState := g\<lparr> nTorCryptoNodes := nTorCryptoNodes g + 1 \<rparr> \<rparr>
      in if \<not> sslInitializedGlobal g then
           let s2 = s1\<lparr> shadowtorpreloadGlobalState := (shadowtorpreloadGlobalState s1)\<lparr> sslInitializedGlobal := True \<rparr> \<rparr>;
               ((p, w), s3) = shadowtorpreload_getWorker t a s2;
               s4 = (case vt_tor_ssl_global_init (vtable w) of
                       None \<Rightarrow> s3
                     | Some f \<Rightarrow> emit [Call_tor_ssl_global_init t] s3)
           in (case vt_crypto_global_init (vtable w) of
                 None \<Rightarrow> Returns (0, s4)
               | Some f \<Rightarrow> Returns (f useAccel accelName accelDir,
                    emit [Call_crypto_global_init t useAccel accelName accelDir] s4))
         else Returns (0, s1))"

text \<open>
  \<open>crypto_global_cleanup\<close>: the pre-decrement \<open>--nTorCryptoNodes == 0\<close> stores the
  decremented count and compares it with 0. The source has no check on the count.
\<close>

definition crypto_global_cleanup :: "tid \<Rightarrow> addr \<Rightarrow> sys_state \<Rightarrow> (gint \<times> sys_state) outcome" where
  "crypto_global_cleanup t a s =
     (let g = shadowtorpreloadGlobalState s;
          n = nTorCryptoNodes g - 1;
          s1 = s\<lparr> shadowtorpreloadGlobalState := g\<lparr> nTorCryptoNodes := n \<rparr> \<rparr>
      in if n = 0 then
           let ((p, w), s2) = shadowtorpreload_getWorker t a s1
           in (case vt_crypto_global_cleanup (vtable w) of
                 None \<Rightarrow> Returns (0, s2)
               | Some f \<Rightarrow> Returns (f (), emit [Call_crypto_global_cleanup t] s2))
         else Returns (0, s1))"

section \<open>Early init\<close>

text \<open>
  \<open>crypto_early_init\<close>, under the secondary lock. In the reseed branch the only
  pointer tested against null is \<open>vtable.crypto_early_init\<close>; \<open>crypto_seed_rng\<close> and
  \<open>crypto_init_siphash_key\<close> are then called through their pointers untested.
  \<open>< 0\<close> is a signed comparison.
\<close>

definition crypto_early_init :: "tid \<Rightarrow> addr \<Rightarrow> sys_state \<Rightarrow> (gint \<times> sys_state) outcome" where
  "crypto_early_init t a s =
     (if \<not> sslInitializedEarly (shadowtorpreloadGlobalState s) then
        let s1 = s\<lparr> shadowtorpreloadGlobalState := (shadowtorpreloadGlobalState s)\<lparr> sslInitializedEarly := True \<rparr> \<rparr>;
            ((p, w), s2) = shadowtorpreload_getWorker t a s1
        in (case vt_crypto_early_init (vtable w) of
              None \<Rightarrow> Returns (0, s2)
            | Some f \<Rightarrow> Returns (f (), emit [Call_crypto_early_init t] s2))
      else
        let ((p, w), s1) = shadowtorpreload_getWorker t a s
        in (case vt_crypto_early_init (vtable w) of
              None \<Rightarrow> Returns (0, s1)
            | Some f \<Rightarrow>
                (case vt_crypto_seed_rng (vtable w) of
                   None \<Rightarrow> Undefined (Null_function_call ''crypto_seed_rng'')
                 | Some seed \<Rightarrow>
                     let s2 = emit [Call_crypto_seed_rng t 1] s1;
                         result1 = (if sint (seed 1) < 0 then - 1 else 0)
                     in (case vt_crypto_init_siphash_key (vtable w) of
                           None \<Rightarrow> Undefined (Null_function_call ''crypto_init_siphash_key'')
                         | Some siphash \<Rightarrow>
                             let s3 = emit [Call_crypto_init_siphash_key t] s2;
                                 result2 = (if sint (siphash ()) < 0 then - 1 else result1)
                             in Returns (result2, s3)))))"

section \<open>Writing the consensus file\<close>







section \<open>The lock array\<close>

text \<open>
  The loop \<open>for(gint i = 0; i < numLocks; i++) g_rw_lock_init(&locks[i])\<close>.
\<close>

function g_rw_lock_init_loop :: "nat \<Rightarrow> nat \<Rightarrow> GRWLock list \<Rightarrow> GRWLock list" where
  "g_rw_lock_init_loop i n locks =
     (if i < n then g_rw_lock_init_loop (Suc i) n (locks[i := RW_initialised]) else locks)"
  by pat_completeness auto
termination
  by (relation "measure (\<lambda>(i, n, locks). n - i)") auto

declare g_rw_lock_init_loop.simps [simp del]

text \<open>
  \<open>_shadowtorpreload_cryptoSetup\<close>. \<open>g_new0(GRWLock, numLocks)\<close> converts the count to
  an unsigned size: a negative count overflows the size computation and glib aborts;
  a count of 0 yields the null pointer; otherwise a zeroed array of that many cells
  (memory is taken to suffice).
\<close>

definition shadowtorpreload_cryptoSetup :: "gint \<Rightarrow> sys_state \<Rightarrow> sys_state outcome" where
  "shadowtorpreload_cryptoSetup numLocks s =
     (let g = shadowtorpreloadGlobalState s
      in if \<not> initialized g then
           if sint numLocks < 0 then Fatal Alloc_overflow
           else
             let n = nat (sint numLocks);
                 locks = (if n = 0 then None
                          else Some (g_rw_lock_init_loop 0 n (replicate n RW_zeroed)));
                 g1 = g\<lparr> numCryptoThreadLocks := numLocks, cryptoThreadLocks := locks,
                         initialized := True \<rparr>
             in Returns (emit [G_new0_locks n] (s\<lparr> shadowtorpreloadGlobalState := g1\<lparr> nThreads := nThreads g1 + 1 \<rparr> \<rparr>))
         else Returns (s\<lparr> shadowtorpreloadGlobalState := g\<lparr> nThreads := nThreads g + 1 \<rparr> \<rparr>))"

text \<open>
  \<open>_shadowtorpreload_cryptoTeardown\<close>. The condition is evaluated left to right and
  stops at the first false conjunct, so the count is decremented only when the flag is
  set and the pointer is not null. The clearing loop visits the cells below
  \<open>numCryptoThreadLocks\<close>; the array is then freed, so the cleared cells leave nothing
  behind.
\<close>

definition shadowtorpreload_cryptoTeardown :: "sys_state \<Rightarrow> sys_state outcome" where
  "shadowtorpreload_cryptoTeardown s =
     (let g = shadowtorpreloadGlobalState s
      in if initialized g then
           (case cryptoThreadLocks g of
              None \<Rightarrow> Returns s
            | Some locks \<Rightarrow>
                let n = nThreads g - 1
                in if n = 0 then
                     if int (length locks) < sint (numCryptoThreadLocks g)
                     then Undefined (Out_of_bounds_lock (int (length locks)))
                     else Returns (emit [G_free_locks]
                            (s\<lparr> shadowtorpreloadGlobalState := g\<lparr> nThreads := n, cryptoThreadLocks := None,
                                              initialized := False \<rparr> \<rparr>))
                   else Returns (s\<lparr> shadowtorpreloadGlobalState := g\<lparr> nThreads := n \<rparr> \<rparr>))
         else Returns s)"

text \<open>
  The mode bits of \<open>openssl/crypto.h\<close> (OpenSSL 1.0.x), a header outside this
  repository.
\<close>

definition CRYPTO_LOCK :: gint where "CRYPTO_LOCK = 1"
definition CRYPTO_UNLOCK :: gint where "CRYPTO_UNLOCK = 2"
definition CRYPTO_READ :: gint where "CRYPTO_READ = 4"
definition CRYPTO_WRITE :: gint where "CRYPTO_WRITE = 8"

datatype lock_op = Reader_lock | Writer_lock | Reader_unlock | Writer_unlock

text \<open>The branch structure of the locking callback: which glib primitive a mode selects.\<close>

definition mode_op :: "gint \<Rightarrow> lock_op option" where
  "mode_op mode =
     (if mode AND CRYPTO_LOCK \<noteq> 0 then
        (if mode AND CRYPTO_READ \<noteq> 0 then Some Reader_lock
         else if mode AND CRYPTO_WRITE \<noteq> 0 then Some Writer_lock
         else None)
      else if mode AND CRYPTO_UNLOCK \<noteq> 0 then
        (if mode AND CRYPTO_READ \<noteq> 0 then Some Reader_unlock
         else if mode AND CRYPTO_WRITE \<noteq> 0 then Some Writer_unlock
         else None)
      else None)"

definition lock_event :: "lock_op \<Rightarrow> nat \<Rightarrow> event" where
  "lock_event k i =
     (case k of
        Reader_lock \<Rightarrow> G_rw_lock_reader_lock i
      | Writer_lock \<Rightarrow> G_rw_lock_writer_lock i
      | Reader_unlock \<Rightarrow> G_rw_lock_reader_unlock i
      | Writer_unlock \<Rightarrow> G_rw_lock_writer_unlock i)"

text \<open>
  \<open>_shadowtorpreload_cryptoLockingFunc\<close> (the arguments \<open>file\<close> and \<open>line\<close> are
  unused). The first assertion tests the flag. The second tests the address
  \<open>&cryptoThreadLocks[n]\<close>, which is null only for a null array and \<open>n = 0\<close>. No
  statement compares \<open>n\<close> with \<open>numCryptoThreadLocks\<close>: when a primitive is selected
  and \<open>n\<close> is not an index of the array, the primitive is handed memory outside it.
\<close>

definition shadowtorpreload_cryptoLockingFunc :: "gint \<Rightarrow> gint \<Rightarrow> sys_state \<Rightarrow> sys_state outcome" where
  "shadowtorpreload_cryptoLockingFunc mode n s =
     (let g = shadowtorpreloadGlobalState s
      in if \<not> initialized g then Fatal (Assert_failed ''shadowtorpreloadGlobalState.initialized'')
         else if cryptoThreadLocks g = None \<and> n = 0 then Fatal (Assert_failed ''lock'')
         else
           (case mode_op mode of
              None \<Rightarrow> Returns s
            | Some k \<Rightarrow>
                (case cryptoThreadLocks g of
                   None \<Rightarrow> Undefined (Out_of_bounds_lock (sint n))
                 | Some locks \<Rightarrow>
                     if 0 \<le> sint n \<and> sint n < int (length locks)
                     then Returns (emit [lock_event k (nat (sint n))] s)
                     else Undefined (Out_of_bounds_lock (sint n)))))"

section \<open>Binding a thread\<close>

text \<open>
  \<open>shadowtorpreload_init\<close>. Each \<open>g_assert(g_module_symbol(handle, name, &field))\<close>
  aborts when the lookup fails, and its diagnostic prints the asserted expression,
  which contains the symbol's name: the name stands for the diagnostic here. A lookup
  outside \<open>g_assert\<close> stores the symbol, or null when there is none.
\<close>

definition shadowtorpreload_init :: "tid \<Rightarrow> addr \<Rightarrow> GModule \<Rightarrow> gint \<Rightarrow> sys_state \<Rightarrow> sys_state outcome" where
  "shadowtorpreload_init t a hdl nLocks s =
     (let ((p, w), s1) = shadowtorpreload_getWorker t a s;
          w1 = w\<lparr> handle := Some hdl \<rparr>
      in case sym_spawn_func hdl of
           None \<Rightarrow> Fatal (Assert_failed ''spawn_func'')
         | Some f1 \<Rightarrow>
        (case sym_write_str_to_file hdl of
           None \<Rightarrow> Fatal (Assert_failed ''write_str_to_file'')
         | Some f2 \<Rightarrow>
        (case sym_crypto_global_init hdl of
           None \<Rightarrow> Fatal (Assert_failed ''crypto_global_init'')
         | Some f3 \<Rightarrow>
        (case sym_crypto_global_cleanup hdl of
           None \<Rightarrow> Fatal (Assert_failed ''crypto_global_cleanup'')
         | Some f4 \<Rightarrow>
        (case sym_tor_ssl_global_init hdl of
           None \<Rightarrow> Fatal (Assert_failed ''tor_ssl_global_init'')
         | Some f5 \<Rightarrow>
             let vt = \<lparr> vt_spawn_func = Some f1, vt_write_str_to_file = Some f2,
                        vt_crypto_global_init = Some f3, vt_crypto_global_cleanup = Some f4,
                        vt_crypto_early_init = sym_crypto_early_init hdl,
                        vt_crypto_seed_rng = sym_crypto_seed_rng hdl,
                        vt_crypto_init_siphash_key = sym_crypto_init_siphash_key hdl,
                        vt_tor_ssl_global_init = Some f5 \<rparr>;
                 s2 = setWorker t (w1\<lparr> vtable := vt \<rparr>) s1
             in shadowtorpreload_cryptoSetup nLocks s2)))))"

text \<open>\<open>shadowtorpreload_clear\<close>.\<close>

definition shadowtorpreload_clear :: "sys_state \<Rightarrow> sys_state outcome" where
  "shadowtorpreload_clear s = shadowtorpreload_cryptoTeardown s"

section \<open>Thread identification\<close>

text \<open>
  \<open>_shadowtorpreload_getIDFunc\<close>: the worker pointer converted to \<open>unsigned long\<close>,
  which on the LP64 targets of the simulator keeps the address as it is.
\<close>

definition shadowtorpreload_getIDFunc :: "tid \<Rightarrow> addr \<Rightarrow> sys_state \<Rightarrow> addr \<times> sys_state" where
  "shadowtorpreload_getIDFunc t a s = (let ((p, w), s1) = shadowtorpreload_getWorker t a s in (p, s1))"

section \<open>Call sequences\<close>

text \<open>
  A run of the global coordinator: any sequence of \<open>crypto_global_init\<close> and
  \<open>crypto_global_cleanup\<close> calls, each by some thread. The run returns the result of
  every call and the final state.
\<close>

datatype call =
    GlobalInit tid addr gint "string option" "string option"
  | GlobalCleanup tid addr

fun exec_call :: "call \<Rightarrow> sys_state \<Rightarrow> (gint \<times> sys_state) outcome" where
  "exec_call (GlobalInit t a u n d) s = crypto_global_init t a u n d s"
| "exec_call (GlobalCleanup t a) s = crypto_global_cleanup t a s"

fun is_GlobalInit :: "call \<Rightarrow> bool" where
  "is_GlobalInit (GlobalInit t a u n d) = True"
| "is_GlobalInit (GlobalCleanup t a) = False"

fun run_calls :: "call list \<Rightarrow> sys_state \<Rightarrow> (gint list \<times> sys_state) outcome" where
  "run_calls [] s = Returns ([], s)"
| "run_calls (c # cs) s =
     (case exec_call c s of
        Returns (r, s1) \<Rightarrow>
          (case run_calls cs s1 of
             Returns (rs, s2) \<Rightarrow> Returns (r # rs, s2)
           | Fatal e \<Rightarrow> Fatal e
           | Undefined x \<Rightarrow> Undefined x)
      | Fatal e \<Rightarrow> Fatal e
      | Undefined x \<Rightarrow> Undefined x)"

text \<open>The two delegate calls of the real init sequence.\<close>

definition is_init_event :: "event \<Rightarrow> bool" where
  "is_init_event e =
     (case e of
        Call_tor_ssl_global_init t \<Rightarrow> True
      | Call_crypto_global_init t u n d \<Rightarrow> True
      | _ \<Rightarrow> False)"

text \<open>Init calls minus cleanup calls of a run, in the counter's arithmetic.\<close>

definition net_count :: "call list \<Rightarrow> gint" where
  "net_count cs = of_nat (length (filter is_GlobalInit cs))
                  - of_nat (length (filter (\<lambda>c. \<not> is_GlobalInit c) cs))"

text \<open>A run of the lock bridge: setups and teardowns in any order.\<close>

datatype bridge_call = Setup gint | Teardown

fun exec_bridge :: "bridge_call \<Rightarrow> sys_state \<Rightarrow> sys_state outcome" where
  "exec_bridge (Setup numLocks) s = shadowtorpreload_cryptoSetup numLocks s"
| "exec_bridge Teardown s = shadowtorpreload_cryptoTeardown s"

fun run_bridge :: "bridge_call list \<Rightarrow> sys_state \<Rightarrow> sys_state outcome" where
  "run_bridge [] s = Returns s"
| "run_bridge (c # cs) s =
     (case exec_bridge c s of
        Returns s1 \<Rightarrow> run_bridge cs s1
      | Fatal e \<Rightarrow> Fatal e
      | Undefined x \<Rightarrow> Undefined x)"

text \<open>
  The state \<open>s\<close> after the array has been allocated for \<open>c\<close> locks and while \<open>k\<close>
  threads hold it, and the state after the last of them has torn it down.
\<close>

definition live_state :: "sys_state \<Rightarrow> gint \<Rightarrow> nat \<Rightarrow> sys_state" where
  "live_state s c k =
     s\<lparr> shadowtorpreloadGlobalState := (shadowtorpreloadGlobalState s)\<lparr> numCryptoThreadLocks := c,
            cryptoThreadLocks := Some (replicate (nat (sint c)) RW_initialised),
            initialized := True, nThreads := of_nat k \<rparr>,
        trace := trace s @ [G_new0_locks (nat (sint c))] \<rparr>"

definition torn_state :: "sys_state \<Rightarrow> gint \<Rightarrow> sys_state" where
  "torn_state s c =
     s\<lparr> shadowtorpreloadGlobalState := (shadowtorpreloadGlobalState s)\<lparr> numCryptoThreadLocks := c, cryptoThreadLocks := None,
            initialized := False, nThreads := 0 \<rparr>,
        trace := trace s @ [G_new0_locks (nat (sint c)), G_free_locks] \<rparr>"

text \<open>
  The names \<open>shadowtorpreload_init\<close> looks up, and whether a module resolves a name.
\<close>

definition mandatory_symbols :: "string list" where
  "mandatory_symbols = [''spawn_func'', ''write_str_to_file'', ''crypto_global_init'',
     ''crypto_global_cleanup'', ''tor_ssl_global_init'']"

definition optional_symbols :: "string list" where
  "optional_symbols = [''crypto_early_init'', ''crypto_seed_rng'', ''crypto_init_siphash_key'']"

definition g_module_symbol :: "GModule \<Rightarrow> string \<Rightarrow> bool" where
  "g_module_symbol hdl nm =
     (if nm = ''spawn_func'' then sym_spawn_func hdl \<noteq> None
      else if nm = ''write_str_to_file'' then sym_write_str_to_file hdl \<noteq> None
      else if nm = ''crypto_global_init'' then sym_crypto_global_init hdl \<noteq> None
      else if nm = ''crypto_global_cleanup'' then sym_crypto_global_cleanup hdl \<noteq> None
      else if nm = ''tor_ssl_global_init'' then sym_tor_ssl_global_init hdl \<noteq> None
      else if nm = ''crypto_early_init'' then sym_crypto_early_init hdl \<noteq> None
      else if nm = ''crypto_seed_rng'' then sym_crypto_seed_rng hdl \<noteq> None
      else if nm = ''crypto_init_siphash_key'' then sym_crypto_init_siphash_key hdl \<noteq> None
      else False)"

text \<open>
  The life of threads as far as identification goes: a thread asks for its id, or it
  exits. A run yields the id returned by each call.
\<close>

datatype thread_event = Call_getID tid addr | Thread_exit tid

definition live_addrs :: "sys_state \<Rightarrow> addr list" where
  "live_addrs s = map (\<lambda>(u, p, v). p) (threadPreloadWorkerKey s)"

fun exec_thread_event :: "thread_event \<Rightarrow> sys_state \<Rightarrow> addr option \<times> sys_state" where
  "exec_thread_event (Call_getID t a) s = (case shadowtorpreload_getIDFunc t a s of (i, s1) \<Rightarrow> (Some i, s1))"
| "exec_thread_event (Thread_exit t) s = (None, threadExit t s)"

fun run_threads :: "thread_event list \<Rightarrow> sys_state \<Rightarrow> addr option list \<times> sys_state" where
  "run_threads [] s = ([], s)"
| "run_threads (e # evs) s =
     (case exec_thread_event e s of
        (r, s1) \<Rightarrow> (case run_threads evs s1 of (out, s2) \<Rightarrow> (r # out, s2)))"

text \<open>
  What the allocator guarantees: a block handed out by \<open>g_new0\<close> is not null and is
  none of the blocks currently allocated. The address offered to a call matters only
  when that call allocates, that is when the thread has no worker yet.
\<close>

fun g_new0_fresh :: "thread_event \<Rightarrow> sys_state \<Rightarrow> bool" where
  "g_new0_fresh (Call_getID t a) s =
     (if map_of (threadPreloadWorkerKey s) t = None then a \<noteq> 0 \<and> a \<notin> set (live_addrs s) else True)"
| "g_new0_fresh (Thread_exit t) s = True"

fun g_new0_contract :: "thread_event list \<Rightarrow> sys_state \<Rightarrow> bool" where
  "g_new0_contract [] s = True"
| "g_new0_contract (e # evs) s =
     (g_new0_fresh e s \<and> g_new0_contract evs (snd (exec_thread_event e s)))"

section \<open>Sample states\<close>

text \<open>
  A module that resolves all eight names, one of an older release without the three
  optional ones, and one that lacks a mandatory name.
\<close>

definition full_module :: GModule where
  "full_module = \<lparr> sym_spawn_func = Some (\<lambda>_. 0),
     sym_write_str_to_file = Some (\<lambda>fname str bin. 0),
     sym_crypto_global_init = Some (\<lambda>useAccel accelName accelDir. if useAccel = 0 then 0 else - 1),
     sym_crypto_global_cleanup = Some (\<lambda>_. 0),
     sym_tor_ssl_global_init = Some (\<lambda>_. ()),
     sym_crypto_early_init = Some (\<lambda>_. 0),
     sym_crypto_seed_rng = Some (\<lambda>startup. 0),
     sym_crypto_init_siphash_key = Some (\<lambda>_. - 1) \<rparr>"

definition old_module :: GModule where
  "old_module = full_module\<lparr> sym_crypto_early_init := None, sym_crypto_seed_rng := None,
     sym_crypto_init_siphash_key := None \<rparr>"

definition broken_module :: GModule where
  "broken_module = full_module\<lparr> sym_crypto_global_cleanup := None \<rparr>"

text \<open>A worker bound to \<open>full_module\<close> that has written three consensus files.\<close>

definition full_vtable :: InterposeFuncs where
  "full_vtable = \<lparr> vt_spawn_func = Some (\<lambda>_. 0),
     vt_write_str_to_file = Some (\<lambda>fname str bin. 0),
     vt_crypto_global_init = Some (\<lambda>useAccel accelName accelDir. if useAccel = 0 then 0 else - 1),
     vt_crypto_global_cleanup = Some (\<lambda>_. 0),
     vt_crypto_early_init = Some (\<lambda>_. 0),
     vt_crypto_seed_rng = Some (\<lambda>startup. 0),
     vt_crypto_init_siphash_key = Some (\<lambda>_. - 1),
     vt_tor_ssl_global_init = Some (\<lambda>_. ()) \<rparr>"

definition bound_worker :: PreloadWorker where
  "bound_worker = \<lparr> handle = Some full_module, vtable = full_vtable, consensusCounter = 3 \<rparr>"

definition bound_state :: sys_state where
  "bound_state = \<lparr> shadowtorpreloadGlobalState = shadowtorpreloadGlobalState0, threadPreloadWorkerKey = [(1, 100, bound_worker)],
     trace = [] \<rparr>"

text \<open>The same thread with one live node, and after early init has run.\<close>

definition one_node_state :: sys_state where
  "one_node_state = \<lparr> shadowtorpreloadGlobalState = shadowtorpreloadGlobalState0\<lparr> sslInitializedGlobal := True,
       nTorCryptoNodes := 1 \<rparr>, threadPreloadWorkerKey = [(1, 100, bound_worker)], trace = [] \<rparr>"

definition reseed_state :: sys_state where
  "reseed_state = \<lparr> shadowtorpreloadGlobalState = shadowtorpreloadGlobalState0\<lparr> sslInitializedEarly := True \<rparr>,
     threadPreloadWorkerKey = [(1, 100, bound_worker)], trace = [] \<rparr>"

text \<open>
  After early init, a thread whose module has \<open>crypto_seed_rng\<close> but neither
  \<open>crypto_early_init\<close> nor \<open>crypto_init_siphash_key\<close>.
\<close>

definition seed_only_state :: sys_state where
  "seed_only_state = \<lparr> shadowtorpreloadGlobalState = shadowtorpreloadGlobalState0\<lparr> sslInitializedEarly := True \<rparr>,
     threadPreloadWorkerKey = [(1, 100, bound_worker\<lparr> vtable := full_vtable\<lparr> vt_crypto_early_init := None,
              vt_crypto_init_siphash_key := None \<rparr> \<rparr>)],
     trace = [] \<rparr>"

text \<open>The state after one \<open>_shadowtorpreload_cryptoSetup(2)\<close>.\<close>

definition two_locks_state :: sys_state where
  "two_locks_state = \<lparr> shadowtorpreloadGlobalState = \<lparr> initialized = True, sslInitializedEarly = False,
       sslInitializedGlobal = False, nTorCryptoNodes = 0, nThreads = 1,
       numCryptoThreadLocks = 2, cryptoThreadLocks = Some [RW_initialised, RW_initialised] \<rparr>,
     threadPreloadWorkerKey = [], trace = [G_new0_locks 2] \<rparr>"

section \<open>Properties\<close>

subsection \<open>Workers and slots\<close>

lemma getWorker_slot:
  "shadowtorpreload_getWorker t a s = ((p, w), s1) \<Longrightarrow> map_of (threadPreloadWorkerKey s1) t = Some (p, w)"
  by (auto simp: shadowtorpreload_getWorker_def split: option.splits)

lemma map_of_setWorker:
  "map_of (threadPreloadWorkerKey (setWorker t w s)) u =
     (if u = t then map_option (\<lambda>(p, v). (p, w)) (map_of (threadPreloadWorkerKey s) t) else map_of (threadPreloadWorkerKey s) u)"
proof -
  have "map_of (map (\<lambda>(k, p, v). if k = t then (k, p, w) else (k, p, v)) l) u =
     (if u = t then map_option (\<lambda>(p, v). (p, w)) (map_of l t) else map_of l u)" for l
    by (induction l) auto
  from this [of "threadPreloadWorkerKey s"] show ?thesis by (simp add: setWorker_def)
qed


subsection \<open>Global init and cleanup\<close>

lemma cleanup_step:
  "\<exists>r s'. crypto_global_cleanup t a s = Returns (r, s')
     \<and> sslInitializedGlobal (shadowtorpreloadGlobalState s') = sslInitializedGlobal (shadowtorpreloadGlobalState s)
     \<and> nTorCryptoNodes (shadowtorpreloadGlobalState s') = nTorCryptoNodes (shadowtorpreloadGlobalState s) - 1
     \<and> (\<exists>es. trace s' = trace s @ es \<and> filter is_init_event es = [])
     \<and> (\<forall>u pw. map_of (threadPreloadWorkerKey s) u = Some pw \<longrightarrow> map_of (threadPreloadWorkerKey s') u = Some pw)"
  apply (simp add: crypto_global_cleanup_def Let_def split: prod.splits option.splits)
  apply (auto simp: emit_def is_init_event_def shadowtorpreload_getWorker_def split: option.splits)
  done

lemma init_step_latched:
  "sslInitializedGlobal (shadowtorpreloadGlobalState s) \<Longrightarrow>
   crypto_global_init t a u n d s =
     Returns (0, s\<lparr> shadowtorpreloadGlobalState := (shadowtorpreloadGlobalState s)\<lparr> nTorCryptoNodes := nTorCryptoNodes (shadowtorpreloadGlobalState s) + 1 \<rparr> \<rparr>)"
  by (simp add: crypto_global_init_def Let_def)

lemma init_step_first:
  assumes "\<not> sslInitializedGlobal (shadowtorpreloadGlobalState s)"
      and "map_of (threadPreloadWorkerKey s) t = Some (p, w)"
      and "vt_tor_ssl_global_init (vtable w) = Some ssl"
      and "vt_crypto_global_init (vtable w) = Some ini"
  shows "crypto_global_init t a u n d s =
     Returns (ini u n d,
       s\<lparr> shadowtorpreloadGlobalState := (shadowtorpreloadGlobalState s)\<lparr> nTorCryptoNodes := nTorCryptoNodes (shadowtorpreloadGlobalState s) + 1,
                                  sslInitializedGlobal := True \<rparr>,
          trace := trace s @ [Call_tor_ssl_global_init t, Call_crypto_global_init t u n d] \<rparr>)"
  using assms by (simp add: crypto_global_init_def Let_def shadowtorpreload_getWorker_def emit_def)

lemma init_step_count:
  "\<exists>r s'. crypto_global_init t a u n d s = Returns (r, s')
     \<and> nTorCryptoNodes (shadowtorpreloadGlobalState s') = nTorCryptoNodes (shadowtorpreloadGlobalState s) + 1"
  by (auto simp add: crypto_global_init_def Let_def shadowtorpreload_getWorker_def emit_def split: option.splits prod.splits)

lemma run_calls_append:
  "run_calls (xs @ ys) s =
     (case run_calls xs s of
        Returns (rs, s1) \<Rightarrow>
          (case run_calls ys s1 of
             Returns (rs', s2) \<Rightarrow> Returns (rs @ rs', s2)
           | Fatal e \<Rightarrow> Fatal e
           | Undefined x \<Rightarrow> Undefined x)
      | Fatal e \<Rightarrow> Fatal e
      | Undefined x \<Rightarrow> Undefined x)"
  by (induction xs arbitrary: s) (auto split: outcome.splits prod.splits)

lemma run_cleanups:
  "\<forall>c\<in>set cs. \<not> is_GlobalInit c \<Longrightarrow>
   \<exists>rs s'. run_calls cs s = Returns (rs, s') \<and> length rs = length cs
     \<and> sslInitializedGlobal (shadowtorpreloadGlobalState s') = sslInitializedGlobal (shadowtorpreloadGlobalState s)
     \<and> nTorCryptoNodes (shadowtorpreloadGlobalState s') = nTorCryptoNodes (shadowtorpreloadGlobalState s) - of_nat (length cs)
     \<and> (\<exists>es. trace s' = trace s @ es \<and> filter is_init_event es = [])
     \<and> (\<forall>u pw. map_of (threadPreloadWorkerKey s) u = Some pw \<longrightarrow> map_of (threadPreloadWorkerKey s') u = Some pw)"
proof (induction cs arbitrary: s)
  case Nil
  then show ?case by simp
next
  case (Cons c cs)
  from Cons.prems obtain t a where c: "c = GlobalCleanup t a"
    by (cases c) auto
  from cleanup_step [of t a s] obtain r s1 where
    st: "crypto_global_cleanup t a s = Returns (r, s1)"
    and l1: "sslInitializedGlobal (shadowtorpreloadGlobalState s1) = sslInitializedGlobal (shadowtorpreloadGlobalState s)"
    and n1: "nTorCryptoNodes (shadowtorpreloadGlobalState s1) = nTorCryptoNodes (shadowtorpreloadGlobalState s) - 1"
    and e1: "\<exists>es. trace s1 = trace s @ es \<and> filter is_init_event es = []"
    and k1: "\<forall>u pw. map_of (threadPreloadWorkerKey s) u = Some pw \<longrightarrow> map_of (threadPreloadWorkerKey s1) u = Some pw"
    by blast
  from Cons.prems have "\<forall>c\<in>set cs. \<not> is_GlobalInit c" by simp
  from Cons.IH [OF this, of s1] obtain rs s2 where
    r2: "run_calls cs s1 = Returns (rs, s2)" and len: "length rs = length cs"
    and l2: "sslInitializedGlobal (shadowtorpreloadGlobalState s2) = sslInitializedGlobal (shadowtorpreloadGlobalState s1)"
    and n2: "nTorCryptoNodes (shadowtorpreloadGlobalState s2) = nTorCryptoNodes (shadowtorpreloadGlobalState s1) - of_nat (length cs)"
    and e2: "\<exists>es. trace s2 = trace s1 @ es \<and> filter is_init_event es = []"
    and k2: "\<forall>u pw. map_of (threadPreloadWorkerKey s1) u = Some pw \<longrightarrow> map_of (threadPreloadWorkerKey s2) u = Some pw"
    by blast
  have run: "run_calls (c # cs) s = Returns (r # rs, s2)"
    by (simp add: c st r2)
  from e1 e2 have e: "\<exists>es. trace s2 = trace s @ es \<and> filter is_init_event es = []"
    by auto
  from n1 n2 have n: "nTorCryptoNodes (shadowtorpreloadGlobalState s2) = nTorCryptoNodes (shadowtorpreloadGlobalState s) - of_nat (length (c # cs))"
    by simp
  from run len l1 l2 n e k1 k2 show ?case by auto
qed

lemma net_count_Cons:
  "net_count (c # cs) = (if is_GlobalInit c then 1 else - 1) + net_count cs"
  by (simp add: net_count_def)

lemma run_latched:
  "sslInitializedGlobal (shadowtorpreloadGlobalState s) \<Longrightarrow>
   \<exists>rs s'. run_calls cs s = Returns (rs, s') \<and> length rs = length cs
     \<and> sslInitializedGlobal (shadowtorpreloadGlobalState s')
     \<and> (\<forall>i<length cs. is_GlobalInit (cs ! i) \<longrightarrow> rs ! i = 0)
     \<and> nTorCryptoNodes (shadowtorpreloadGlobalState s') = nTorCryptoNodes (shadowtorpreloadGlobalState s) + net_count cs
     \<and> (\<exists>es. trace s' = trace s @ es \<and> filter is_init_event es = [])"
proof (induction cs arbitrary: s)
  case Nil
  then show ?case by (simp add: net_count_def)
next
  case (Cons c cs)
  have "\<exists>r s1. exec_call c s = Returns (r, s1) \<and> sslInitializedGlobal (shadowtorpreloadGlobalState s1)
      \<and> (is_GlobalInit c \<longrightarrow> r = 0)
      \<and> nTorCryptoNodes (shadowtorpreloadGlobalState s1) = nTorCryptoNodes (shadowtorpreloadGlobalState s) + (if is_GlobalInit c then 1 else - 1)
      \<and> (\<exists>es. trace s1 = trace s @ es \<and> filter is_init_event es = [])"
  proof (cases c)
    case (GlobalInit t a u n d)
    with Cons.prems show ?thesis by (simp add: init_step_latched)
  next
    case (GlobalCleanup t a)
    with Cons.prems cleanup_step [of t a s] show ?thesis by auto
  qed
  then obtain r s1 where
    st: "exec_call c s = Returns (r, s1)" and l1: "sslInitializedGlobal (shadowtorpreloadGlobalState s1)"
    and z1: "is_GlobalInit c \<longrightarrow> r = 0"
    and n1: "nTorCryptoNodes (shadowtorpreloadGlobalState s1) = nTorCryptoNodes (shadowtorpreloadGlobalState s) + (if is_GlobalInit c then 1 else - 1)"
    and e1: "\<exists>es. trace s1 = trace s @ es \<and> filter is_init_event es = []"
    by blast
  from Cons.IH [OF l1] obtain rs s2 where
    r2: "run_calls cs s1 = Returns (rs, s2)" and len: "length rs = length cs"
    and l2: "sslInitializedGlobal (shadowtorpreloadGlobalState s2)"
    and z2: "\<forall>i<length cs. is_GlobalInit (cs ! i) \<longrightarrow> rs ! i = 0"
    and n2: "nTorCryptoNodes (shadowtorpreloadGlobalState s2) = nTorCryptoNodes (shadowtorpreloadGlobalState s1) + net_count cs"
    and e2: "\<exists>es. trace s2 = trace s1 @ es \<and> filter is_init_event es = []"
    by blast
  have run: "run_calls (c # cs) s = Returns (r # rs, s2)"
    by (simp add: st r2)
  have z: "\<forall>i<length (c # cs). is_GlobalInit ((c # cs) ! i) \<longrightarrow> (r # rs) ! i = 0"
  proof (intro allI impI)
    fix i assume "i < length (c # cs)" and "is_GlobalInit ((c # cs) ! i)"
    with z1 z2 show "(r # rs) ! i = 0" by (cases i) auto
  qed
  from n1 n2 have n: "nTorCryptoNodes (shadowtorpreloadGlobalState s2) = nTorCryptoNodes (shadowtorpreloadGlobalState s) + net_count (c # cs)"
    by (simp add: net_count_Cons)
  from e1 e2 have e: "\<exists>es. trace s2 = trace s @ es \<and> filter is_init_event es = []"
    by auto
  from run len l2 z n e show ?case by auto
qed

text \<open>
  C1. Take any run of init and cleanup calls that starts with the latch
  \<open>sslInitializedGlobal\<close> clear, and let its first \<open>crypto_global_init\<close> be made by a
  thread whose worker holds \<open>tor_ssl_global_init\<close> and \<open>crypto_global_init\<close> (both are
  mandatory at bind time). Whatever cleanups come before it and whatever calls follow,
  the run returns; the first init call returns the result of the delegate
  \<open>crypto_global_init\<close>; the trace of the whole run holds the delegate pair
  \<open>tor_ssl_global_init\<close>, \<open>crypto_global_init\<close> exactly once, in this order, made by
  that call; every later init call returns 0 and adds no such event, also when the
  count has gone back to 0 in between; and the count ends at its start value plus the
  number of init calls minus the number of cleanup calls. A single init call always
  returns and adds 1 to \<open>nTorCryptoNodes\<close>.
\<close>

theorem crypto_global_init_once:
  assumes latch: "\<not> sslInitializedGlobal (shadowtorpreloadGlobalState s)"
      and pre: "\<forall>c\<in>set pre. \<not> is_GlobalInit c"
      and slot: "map_of (threadPreloadWorkerKey s) t = Some (p, w)"
      and ssl: "vt_tor_ssl_global_init (vtable w) = Some ssl"
      and ini: "vt_crypto_global_init (vtable w) = Some ini"
  shows "\<exists>rs1 rs2 s' es1 es3.
           run_calls (pre @ GlobalInit t a u n d # post) s = Returns (rs1 @ ini u n d # rs2, s')
         \<and> length rs1 = length pre \<and> length rs2 = length post
         \<and> (\<forall>i<length post. is_GlobalInit (post ! i) \<longrightarrow> rs2 ! i = 0)
         \<and> trace s' = trace s @ es1
              @ [Call_tor_ssl_global_init t, Call_crypto_global_init t u n d] @ es3
         \<and> filter is_init_event es1 = [] \<and> filter is_init_event es3 = []
         \<and> nTorCryptoNodes (shadowtorpreloadGlobalState s') =
             nTorCryptoNodes (shadowtorpreloadGlobalState s) + net_count (pre @ GlobalInit t a u n d # post)
         \<and> (\<forall>s0 t0 a0 u0 n0 d0. \<exists>r s1.
               crypto_global_init t0 a0 u0 n0 d0 s0 = Returns (r, s1)
             \<and> nTorCryptoNodes (shadowtorpreloadGlobalState s1) = nTorCryptoNodes (shadowtorpreloadGlobalState s0) + 1)"
proof -
  from run_cleanups [OF pre, of s] obtain rs1 s1 where
    r1: "run_calls pre s = Returns (rs1, s1)" and len1: "length rs1 = length pre"
    and l1: "sslInitializedGlobal (shadowtorpreloadGlobalState s1) = sslInitializedGlobal (shadowtorpreloadGlobalState s)"
    and n1: "nTorCryptoNodes (shadowtorpreloadGlobalState s1) = nTorCryptoNodes (shadowtorpreloadGlobalState s) - of_nat (length pre)"
    and e1: "\<exists>es. trace s1 = trace s @ es \<and> filter is_init_event es = []"
    and k1: "\<forall>u pw. map_of (threadPreloadWorkerKey s) u = Some pw \<longrightarrow> map_of (threadPreloadWorkerKey s1) u = Some pw"
    by blast
  from k1 slot have slot1: "map_of (threadPreloadWorkerKey s1) t = Some (p, w)" by blast
  from l1 latch have latch1: "\<not> sslInitializedGlobal (shadowtorpreloadGlobalState s1)" by simp
  define s2 where "s2 = s1\<lparr> shadowtorpreloadGlobalState := (shadowtorpreloadGlobalState s1)\<lparr> nTorCryptoNodes := nTorCryptoNodes (shadowtorpreloadGlobalState s1) + 1,
                                  sslInitializedGlobal := True \<rparr>,
          trace := trace s1 @ [Call_tor_ssl_global_init t, Call_crypto_global_init t u n d] \<rparr>"
  have st: "crypto_global_init t a u n d s1 = Returns (ini u n d, s2)"
    unfolding s2_def by (rule init_step_first [OF latch1 slot1 ssl ini])
  have l2: "sslInitializedGlobal (shadowtorpreloadGlobalState s2)" by (simp add: s2_def)
  from run_latched [OF l2, of post] obtain rs2 s3 where
    r3: "run_calls post s2 = Returns (rs2, s3)" and len3: "length rs2 = length post"
    and z3: "\<forall>i<length post. is_GlobalInit (post ! i) \<longrightarrow> rs2 ! i = 0"
    and n3: "nTorCryptoNodes (shadowtorpreloadGlobalState s3) = nTorCryptoNodes (shadowtorpreloadGlobalState s2) + net_count post"
    and e3: "\<exists>es. trace s3 = trace s2 @ es \<and> filter is_init_event es = []"
    by blast
  have run: "run_calls (pre @ GlobalInit t a u n d # post) s = Returns (rs1 @ ini u n d # rs2, s3)"
    by (simp add: run_calls_append r1 st r3)
  from e1 obtain es1 where t1: "trace s1 = trace s @ es1" and f1: "filter is_init_event es1 = []"
    by blast
  from e3 obtain es3 where t3: "trace s3 = trace s2 @ es3" and f3: "filter is_init_event es3 = []"
    by blast
  have tr: "trace s3 = trace s @ es1
      @ [Call_tor_ssl_global_init t, Call_crypto_global_init t u n d] @ es3"
    by (simp add: t3 s2_def t1)
  have pre_filter: "filter is_GlobalInit pre = []" "filter (\<lambda>c. \<not> is_GlobalInit c) pre = pre"
    using pre by (auto simp: filter_empty_conv filter_id_conv)
  have cnt: "nTorCryptoNodes (shadowtorpreloadGlobalState s3) =
             nTorCryptoNodes (shadowtorpreloadGlobalState s) + net_count (pre @ GlobalInit t a u n d # post)"
    using pre_filter by (simp add: n3 s2_def n1 net_count_def)
  have step: "\<forall>s0 t0 a0 u0 n0 d0. \<exists>r s1.
               crypto_global_init t0 a0 u0 n0 d0 s0 = Returns (r, s1)
             \<and> nTorCryptoNodes (shadowtorpreloadGlobalState s1) = nTorCryptoNodes (shadowtorpreloadGlobalState s0) + 1"
    using init_step_count by blast
  from run len1 len3 z3 tr f1 f3 cnt step show ?thesis by blast
qed

text \<open>
  A run of two threads: the first init, a second one, both cleanups (the count is back
  at 0), and an init again.
\<close>

theorem crypto_global_init_once_witness:
  "\<exists>rs2 s' es1 es3.
     run_calls [GlobalInit 1 100 1 None None, GlobalInit 2 200 0 None None,
                GlobalCleanup 2 200, GlobalCleanup 1 100, GlobalInit 1 100 0 None None] bound_state
       = Returns ((- 1) # rs2, s')
   \<and> rs2 ! 0 = 0 \<and> rs2 ! 3 = 0
   \<and> trace s' = es1 @ [Call_tor_ssl_global_init 1, Call_crypto_global_init 1 1 None None] @ es3
   \<and> filter is_init_event es1 = [] \<and> filter is_init_event es3 = []
   \<and> nTorCryptoNodes (shadowtorpreloadGlobalState s') = 1"
proof -
  let ?post = "[GlobalInit 2 200 0 None None, GlobalCleanup 2 200, GlobalCleanup 1 100,
                GlobalInit 1 100 0 None None]"
  have h1: "\<not> sslInitializedGlobal (shadowtorpreloadGlobalState bound_state)"
    by (simp add: bound_state_def shadowtorpreloadGlobalState0_def)
  have h2: "\<forall>c\<in>set []. \<not> is_GlobalInit c" by simp
  have h3: "map_of (threadPreloadWorkerKey bound_state) 1 = Some (100, bound_worker)"
    by (simp add: bound_state_def)
  have h4: "vt_tor_ssl_global_init (vtable bound_worker) = Some (\<lambda>_. ())"
    by (simp add: bound_worker_def full_vtable_def)
  have h5: "vt_crypto_global_init (vtable bound_worker)
      = Some (\<lambda>useAccel accelName accelDir. if useAccel = 0 then 0 else - 1)"
    by (simp add: bound_worker_def full_vtable_def)
  from crypto_global_init_once [OF h1 h2 h3 h4 h5, of 100 1 None None ?post]
  obtain rs1 rs2 s' es1 es3 where
    run: "run_calls ([] @ GlobalInit 1 100 1 None None # ?post) bound_state
       = Returns (rs1 @ (if (1::gint) = 0 then 0 else - 1) # rs2, s')"
    and len: "length rs1 = length ([] :: call list)"
    and z: "\<forall>i<length ?post. is_GlobalInit (?post ! i) \<longrightarrow> rs2 ! i = 0"
    and tr: "trace s' = trace bound_state @ es1
         @ [Call_tor_ssl_global_init 1, Call_crypto_global_init 1 1 None None] @ es3"
    and f: "filter is_init_event es1 = []" "filter is_init_event es3 = []"
    and cnt: "nTorCryptoNodes (shadowtorpreloadGlobalState s') = nTorCryptoNodes (shadowtorpreloadGlobalState bound_state)
         + net_count ([] @ GlobalInit 1 100 1 None None # ?post)"
    by blast
  from len have rs1: "rs1 = []" by simp
  from z [rule_format, of 0] have z0: "rs2 ! 0 = 0" by simp
  from z [rule_format, of 3] have z3: "rs2 ! 3 = 0" by simp
  have tr0: "trace bound_state = []" by (simp add: bound_state_def)
  have n0: "nTorCryptoNodes (shadowtorpreloadGlobalState bound_state) = 0"
    by (simp add: bound_state_def shadowtorpreloadGlobalState0_def)
  have run': "run_calls [GlobalInit 1 100 1 None None, GlobalInit 2 200 0 None None,
                GlobalCleanup 2 200, GlobalCleanup 1 100, GlobalInit 1 100 0 None None] bound_state
       = Returns ((- 1) # rs2, s')"
    using run rs1 by simp
  have tr': "trace s' = es1 @ [Call_tor_ssl_global_init 1, Call_crypto_global_init 1 1 None None] @ es3"
    using tr tr0 by simp
  have cnt': "nTorCryptoNodes (shadowtorpreloadGlobalState s') = 1"
    using cnt n0 by (simp add: net_count_def)
  from run' z0 z3 tr' f cnt' show ?thesis by blast
qed

text \<open>
  C6. A \<open>crypto_global_cleanup\<close> call made while the count is at least 1, by a thread
  whose worker holds the mandatory \<open>crypto_global_cleanup\<close> delegate, returns and
  lowers \<open>nTorCryptoNodes\<close> by 1. When the new count is 0 the delegate is called once
  and its result is returned; otherwise the call returns 0 and the trace is unchanged.
\<close>

theorem crypto_global_cleanup_refcount:
  assumes slot: "map_of (threadPreloadWorkerKey s) t = Some (p, w)"
      and del: "vt_crypto_global_cleanup (vtable w) = Some f"
      and live: "1 \<le> sint (nTorCryptoNodes (shadowtorpreloadGlobalState s))"
  shows "\<exists>r s'. crypto_global_cleanup t a s = Returns (r, s')
           \<and> nTorCryptoNodes (shadowtorpreloadGlobalState s') = nTorCryptoNodes (shadowtorpreloadGlobalState s) - 1
           \<and> sint (nTorCryptoNodes (shadowtorpreloadGlobalState s')) = sint (nTorCryptoNodes (shadowtorpreloadGlobalState s)) - 1
           \<and> (if nTorCryptoNodes (shadowtorpreloadGlobalState s') = 0
               then r = f () \<and> trace s' = trace s @ [Call_crypto_global_cleanup t]
               else r = 0 \<and> trace s' = trace s)"
proof -
  let ?n = "nTorCryptoNodes (shadowtorpreloadGlobalState s)"
  have sub: "sint (?n - 1) = sint ?n - 1"
    using live sint_lt [of ?n] sint_ge [of ?n]
    by (simp add: sint_word_ariths signed_take_bit_int_eq_self)
  show ?thesis
    using sub by (simp add: crypto_global_cleanup_def Let_def shadowtorpreload_getWorker_def slot del emit_def)
qed

text \<open>The last node leaving, and the first of two nodes leaving.\<close>

theorem crypto_global_cleanup_refcount_witness:
  "(\<exists>s'. crypto_global_cleanup 1 100 one_node_state = Returns (0, s')
       \<and> nTorCryptoNodes (shadowtorpreloadGlobalState s') = 0 \<and> trace s' = [Call_crypto_global_cleanup 1])
   \<and> (\<exists>s'. crypto_global_cleanup 1 100
         (one_node_state\<lparr> shadowtorpreloadGlobalState := (shadowtorpreloadGlobalState one_node_state)\<lparr> nTorCryptoNodes := 2 \<rparr> \<rparr>)
           = Returns (0, s')
       \<and> nTorCryptoNodes (shadowtorpreloadGlobalState s') = 1 \<and> trace s' = [])"
proof -
  let ?s2 = "one_node_state\<lparr> shadowtorpreloadGlobalState := (shadowtorpreloadGlobalState one_node_state)\<lparr> nTorCryptoNodes := 2 \<rparr> \<rparr>"
  have slot: "map_of (threadPreloadWorkerKey one_node_state) 1 = Some (100, bound_worker)"
      "map_of (threadPreloadWorkerKey ?s2) 1 = Some (100, bound_worker)"
    by (simp_all add: one_node_state_def)
  have del: "vt_crypto_global_cleanup (vtable bound_worker) = Some (\<lambda>_. 0)"
    by (simp add: bound_worker_def full_vtable_def)
  have live: "1 \<le> sint (nTorCryptoNodes (shadowtorpreloadGlobalState one_node_state))"
      "1 \<le> sint (nTorCryptoNodes (shadowtorpreloadGlobalState ?s2))"
    by (simp_all add: one_node_state_def)
  from crypto_global_cleanup_refcount [OF slot(1) del live(1), of 100]
  have a: "\<exists>s'. crypto_global_cleanup 1 100 one_node_state = Returns (0, s')
       \<and> nTorCryptoNodes (shadowtorpreloadGlobalState s') = 0 \<and> trace s' = [Call_crypto_global_cleanup 1]"
    by (auto simp: one_node_state_def)
  from crypto_global_cleanup_refcount [OF slot(2) del live(2), of 100]
  have b: "\<exists>s'. crypto_global_cleanup 1 100 ?s2 = Returns (0, s')
       \<and> nTorCryptoNodes (shadowtorpreloadGlobalState s') = 1 \<and> trace s' = []"
    by (auto simp: one_node_state_def)
  from a b show ?thesis by blast
qed

text \<open>
  C2, as the code has it. \<open>crypto_global_cleanup\<close> has no check on the count: called
  when the count is 0 or below, it returns 0, calls no delegate, looks up no worker and
  leaves the count one lower (-1 after a call at 0). Nothing aborts.
\<close>

theorem crypto_global_cleanup_below_zero:
  assumes "sint (nTorCryptoNodes (shadowtorpreloadGlobalState s)) \<le> 0"
  shows "crypto_global_cleanup t a s =
           Returns (0, s\<lparr> shadowtorpreloadGlobalState := (shadowtorpreloadGlobalState s)\<lparr> nTorCryptoNodes := nTorCryptoNodes (shadowtorpreloadGlobalState s) - 1 \<rparr> \<rparr>)"
proof -
  have "nTorCryptoNodes (shadowtorpreloadGlobalState s) \<noteq> 1"
    using assms by auto
  then have "nTorCryptoNodes (shadowtorpreloadGlobalState s) - 1 \<noteq> 0" by simp
  then show ?thesis
    by (simp add: crypto_global_cleanup_def Let_def)
qed

theorem crypto_global_cleanup_below_zero_witness:
  "crypto_global_cleanup 1 100 bound_state =
     Returns (0, bound_state\<lparr> shadowtorpreloadGlobalState := (shadowtorpreloadGlobalState bound_state)\<lparr> nTorCryptoNodes := - 1 \<rparr> \<rparr>)"
proof -
  have "sint (nTorCryptoNodes (shadowtorpreloadGlobalState bound_state)) \<le> 0"
    by (simp add: bound_state_def shadowtorpreloadGlobalState0_def)
  from crypto_global_cleanup_below_zero [OF this, of 1 100] show ?thesis
    by (simp add: bound_state_def shadowtorpreloadGlobalState0_def)
qed

text \<open>
  One cleanup in the initial state, where no init was ever made: the call returns 0 and
  the count is -1.
\<close>

theorem crypto_global_cleanup_unchecked_counterexample:
  "crypto_global_cleanup 1 100 sys_state0 =
     Returns (0, \<lparr> shadowtorpreloadGlobalState = shadowtorpreloadGlobalState0\<lparr> nTorCryptoNodes := - 1 \<rparr>,
                  threadPreloadWorkerKey = [], trace = [] \<rparr>)"
  by (simp add: crypto_global_cleanup_def Let_def sys_state0_def shadowtorpreloadGlobalState0_def)

subsection \<open>Early init\<close>

text \<open>
  C4, as the code has it. When \<open>sslInitializedEarly\<close> is already set, the reseed
  branch depends on the calling thread's \<open>crypto_early_init\<close> pointer. If that pointer
  is null the call returns 0 and calls nothing, whether or not \<open>crypto_seed_rng\<close> and
  \<open>crypto_init_siphash_key\<close> are present. If it is set, and the other two are present
  with it, the call invokes \<open>crypto_seed_rng(1)\<close> and then
  \<open>crypto_init_siphash_key()\<close>, and returns -1 when either result is negative and 0
  otherwise.
\<close>

theorem crypto_early_init_reseed:
  assumes latch: "sslInitializedEarly (shadowtorpreloadGlobalState s)"
      and wk: "shadowtorpreload_getWorker t a s = ((p, w), s1)"
  shows "(vt_crypto_early_init (vtable w) = None \<longrightarrow>
            crypto_early_init t a s = Returns (0, s1))
       \<and> (\<forall>e seed siphash.
            vt_crypto_early_init (vtable w) = Some e \<and> vt_crypto_seed_rng (vtable w) = Some seed
            \<and> vt_crypto_init_siphash_key (vtable w) = Some siphash \<longrightarrow>
            crypto_early_init t a s =
              Returns (if sint (seed 1) < 0 \<or> sint (siphash ()) < 0 then - 1 else 0,
                       emit [Call_crypto_seed_rng t 1, Call_crypto_init_siphash_key t] s1))"
  using assms by (simp add: crypto_early_init_def Let_def emit_def)

text \<open>
  A bound thread whose siphash delegate fails, and a thread with no worker yet (all
  pointers null).
\<close>

theorem crypto_early_init_reseed_witness:
  "crypto_early_init 1 100 reseed_state =
     Returns (- 1, emit [Call_crypto_seed_rng 1 1, Call_crypto_init_siphash_key 1] reseed_state)
   \<and> crypto_early_init 2 200 reseed_state =
     Returns (0, reseed_state\<lparr> threadPreloadWorkerKey := (2, 200, new0_PreloadWorker) # threadPreloadWorkerKey reseed_state \<rparr>)"
proof -
  have latch: "sslInitializedEarly (shadowtorpreloadGlobalState reseed_state)"
    by (simp add: reseed_state_def shadowtorpreloadGlobalState0_def)
  have wk1: "shadowtorpreload_getWorker 1 100 reseed_state = ((100, bound_worker), reseed_state)"
    by (simp add: shadowtorpreload_getWorker_def reseed_state_def)
  have wk2: "shadowtorpreload_getWorker 2 200 reseed_state =
      ((200, new0_PreloadWorker), reseed_state\<lparr> threadPreloadWorkerKey := (2, 200, new0_PreloadWorker) # threadPreloadWorkerKey reseed_state \<rparr>)"
    by (simp add: shadowtorpreload_getWorker_def reseed_state_def)
  have v: "vt_crypto_early_init (vtable bound_worker) = Some (\<lambda>_. 0)
         \<and> vt_crypto_seed_rng (vtable bound_worker) = Some (\<lambda>startup. 0)
         \<and> vt_crypto_init_siphash_key (vtable bound_worker) = Some (\<lambda>_. - 1)"
    by (simp add: bound_worker_def full_vtable_def)
  have n: "vt_crypto_early_init (vtable new0_PreloadWorker) = None"
    by (simp add: new0_PreloadWorker_def null_vtable_def)
  from crypto_early_init_reseed [OF latch wk1, THEN conjunct2, rule_format, OF v]
  have a: "crypto_early_init 1 100 reseed_state =
     Returns (- 1, emit [Call_crypto_seed_rng 1 1, Call_crypto_init_siphash_key 1] reseed_state)"
    by simp
  from crypto_early_init_reseed [OF latch wk2, THEN conjunct1, rule_format, OF n]
  have b: "crypto_early_init 2 200 reseed_state =
     Returns (0, reseed_state\<lparr> threadPreloadWorkerKey := (2, 200, new0_PreloadWorker) # threadPreloadWorkerKey reseed_state \<rparr>)" .
  from a b show ?thesis by (rule conjI)
qed

text \<open>
  A thread whose worker holds \<open>crypto_seed_rng\<close> but neither \<open>crypto_early_init\<close> nor
  \<open>crypto_init_siphash_key\<close>: the call returns 0 and the state, trace included, is
  unchanged, so the seed delegate that is present is not invoked.
\<close>

theorem crypto_early_init_seed_present_counterexample:
  "crypto_early_init 1 100 seed_only_state = Returns (0, seed_only_state)"
  by (simp add: crypto_early_init_def Let_def seed_only_state_def shadowtorpreload_getWorker_def
      shadowtorpreloadGlobalState0_def bound_worker_def full_vtable_def)

subsection \<open>Writing the consensus file\<close>






subsection \<open>Binding a thread\<close>

lemma cryptoSetup_tls: "shadowtorpreload_cryptoSetup n s = Returns s' \<Longrightarrow> threadPreloadWorkerKey s' = threadPreloadWorkerKey s"
  by (auto simp: shadowtorpreload_cryptoSetup_def Let_def emit_def split: if_splits)

lemma cryptoSetup_returns:
  "0 \<le> sint n \<Longrightarrow> \<exists>s'. shadowtorpreload_cryptoSetup n s = Returns s'"
  by (auto simp: shadowtorpreload_cryptoSetup_def Let_def)

lemma mandatory_all:
  "(\<forall>nm\<in>set mandatory_symbols. g_module_symbol hdl nm) =
     (sym_spawn_func hdl \<noteq> None \<and> sym_write_str_to_file hdl \<noteq> None
      \<and> sym_crypto_global_init hdl \<noteq> None \<and> sym_crypto_global_cleanup hdl \<noteq> None
      \<and> sym_tor_ssl_global_init hdl \<noteq> None)"
  by (simp add: mandatory_symbols_def g_module_symbol_def)

lemma init_missing:
  assumes "\<not> (\<forall>nm\<in>set mandatory_symbols. g_module_symbol hdl nm)"
  shows "\<exists>nm\<in>set mandatory_symbols. \<not> g_module_symbol hdl nm
            \<and> shadowtorpreload_init t a hdl nLocks s = Fatal (Assert_failed nm)"
proof -
  obtain p w s1 where gw: "shadowtorpreload_getWorker t a s = ((p, w), s1)"
    by (metis prod.exhaust)
  consider (a) "sym_spawn_func hdl = None"
    | (b) "sym_spawn_func hdl \<noteq> None" "sym_write_str_to_file hdl = None"
    | (c) "sym_spawn_func hdl \<noteq> None" "sym_write_str_to_file hdl \<noteq> None"
          "sym_crypto_global_init hdl = None"
    | (d) "sym_spawn_func hdl \<noteq> None" "sym_write_str_to_file hdl \<noteq> None"
          "sym_crypto_global_init hdl \<noteq> None" "sym_crypto_global_cleanup hdl = None"
    | (e) "sym_spawn_func hdl \<noteq> None" "sym_write_str_to_file hdl \<noteq> None"
          "sym_crypto_global_init hdl \<noteq> None" "sym_crypto_global_cleanup hdl \<noteq> None"
          "sym_tor_ssl_global_init hdl = None"
    using assms unfolding mandatory_all by blast
  then show ?thesis
  proof cases
    case a
    then have "shadowtorpreload_init t a hdl nLocks s = Fatal (Assert_failed ''spawn_func'')"
      by (simp add: shadowtorpreload_init_def gw)
    with a show ?thesis
      by (simp add: mandatory_symbols_def g_module_symbol_def)
  next
    case b
    then have "shadowtorpreload_init t a hdl nLocks s = Fatal (Assert_failed ''write_str_to_file'')"
      by (auto simp add: shadowtorpreload_init_def gw)
    with b show ?thesis
      by (simp add: mandatory_symbols_def g_module_symbol_def)
  next
    case c
    then have "shadowtorpreload_init t a hdl nLocks s = Fatal (Assert_failed ''crypto_global_init'')"
      by (auto simp add: shadowtorpreload_init_def gw)
    with c show ?thesis
      by (simp add: mandatory_symbols_def g_module_symbol_def)
  next
    case d
    then have "shadowtorpreload_init t a hdl nLocks s = Fatal (Assert_failed ''crypto_global_cleanup'')"
      by (auto simp add: shadowtorpreload_init_def gw)
    with d show ?thesis
      by (simp add: mandatory_symbols_def g_module_symbol_def)
  next
    case e
    then have "shadowtorpreload_init t a hdl nLocks s = Fatal (Assert_failed ''tor_ssl_global_init'')"
      by (auto simp add: shadowtorpreload_init_def gw)
    with e show ?thesis
      by (simp add: mandatory_symbols_def g_module_symbol_def)
  qed
qed

lemma init_resolved:
  assumes all: "\<forall>nm\<in>set mandatory_symbols. g_module_symbol hdl nm"
      and gw: "shadowtorpreload_getWorker t a s = ((p, w), s1)"
  shows "\<exists>w'. shadowtorpreload_init t a hdl nLocks s = shadowtorpreload_cryptoSetup nLocks (setWorker t w' s1)
           \<and> map_of (threadPreloadWorkerKey (setWorker t w' s1)) t = Some (p, w')
           \<and> handle w' = Some hdl \<and> consensusCounter w' = consensusCounter w
           \<and> vt_spawn_func (vtable w') = sym_spawn_func hdl
           \<and> vt_write_str_to_file (vtable w') = sym_write_str_to_file hdl
           \<and> vt_crypto_global_init (vtable w') = sym_crypto_global_init hdl
           \<and> vt_crypto_global_cleanup (vtable w') = sym_crypto_global_cleanup hdl
           \<and> vt_tor_ssl_global_init (vtable w') = sym_tor_ssl_global_init hdl
           \<and> vt_crypto_early_init (vtable w') = sym_crypto_early_init hdl
           \<and> vt_crypto_seed_rng (vtable w') = sym_crypto_seed_rng hdl
           \<and> vt_crypto_init_siphash_key (vtable w') = sym_crypto_init_siphash_key hdl"
proof -
  from all obtain f1 f2 f3 f4 f5 where
    f: "sym_spawn_func hdl = Some f1" "sym_write_str_to_file hdl = Some f2"
       "sym_crypto_global_init hdl = Some f3" "sym_crypto_global_cleanup hdl = Some f4"
       "sym_tor_ssl_global_init hdl = Some f5"
    unfolding mandatory_all by blast
  from getWorker_slot [OF gw] have slot: "map_of (threadPreloadWorkerKey s1) t = Some (p, w)" .
  let ?w' = "w\<lparr> handle := Some hdl, vtable :=
       \<lparr> vt_spawn_func = Some f1, vt_write_str_to_file = Some f2,
         vt_crypto_global_init = Some f3, vt_crypto_global_cleanup = Some f4,
         vt_crypto_early_init = sym_crypto_early_init hdl,
         vt_crypto_seed_rng = sym_crypto_seed_rng hdl,
         vt_crypto_init_siphash_key = sym_crypto_init_siphash_key hdl,
         vt_tor_ssl_global_init = Some f5 \<rparr> \<rparr>"
  have run: "shadowtorpreload_init t a hdl nLocks s = shadowtorpreload_cryptoSetup nLocks (setWorker t ?w' s1)"
    by (simp add: shadowtorpreload_init_def gw f)
  show ?thesis
    by (rule exI [of _ ?w']) (simp add: run f map_of_setWorker slot)
qed

text \<open>
  C8. \<open>shadowtorpreload_init\<close> on a module that does not resolve one of the five
  mandatory names (\<open>spawn_func\<close>, \<open>write_str_to_file\<close>, \<open>crypto_global_init\<close>,
  \<open>crypto_global_cleanup\<close>, \<open>tor_ssl_global_init\<close>) aborts on the assertion of a
  mandatory name that is missing, and the diagnostic carries that name. On a module
  that resolves all five, no assertion fails: the call goes on to the lock setup with
  the worker's table filled from the module, where each of \<open>crypto_early_init\<close>,
  \<open>crypto_seed_rng\<close> and \<open>crypto_init_siphash_key\<close> holds what the module resolves,
  that is null when it resolves nothing; with a lock count that is not negative the
  call returns. The worker's counter is left as it was.
\<close>

theorem shadowtorpreload_init_symbols:
  assumes gw: "shadowtorpreload_getWorker t a s = ((p, w), s1)"
  shows "(\<not> (\<forall>nm\<in>set mandatory_symbols. g_module_symbol hdl nm) \<longrightarrow>
            (\<exists>nm\<in>set mandatory_symbols. \<not> g_module_symbol hdl nm
               \<and> shadowtorpreload_init t a hdl nLocks s = Fatal (Assert_failed nm)))
       \<and> ((\<forall>nm\<in>set mandatory_symbols. g_module_symbol hdl nm) \<longrightarrow>
            (\<exists>w'. shadowtorpreload_init t a hdl nLocks s = shadowtorpreload_cryptoSetup nLocks (setWorker t w' s1)
               \<and> map_of (threadPreloadWorkerKey (setWorker t w' s1)) t = Some (p, w')
               \<and> handle w' = Some hdl \<and> consensusCounter w' = consensusCounter w
               \<and> vt_spawn_func (vtable w') = sym_spawn_func hdl
               \<and> vt_write_str_to_file (vtable w') = sym_write_str_to_file hdl
               \<and> vt_crypto_global_init (vtable w') = sym_crypto_global_init hdl
               \<and> vt_crypto_global_cleanup (vtable w') = sym_crypto_global_cleanup hdl
               \<and> vt_tor_ssl_global_init (vtable w') = sym_tor_ssl_global_init hdl
               \<and> vt_crypto_early_init (vtable w') = sym_crypto_early_init hdl
               \<and> vt_crypto_seed_rng (vtable w') = sym_crypto_seed_rng hdl
               \<and> vt_crypto_init_siphash_key (vtable w') = sym_crypto_init_siphash_key hdl
               \<and> (0 \<le> sint nLocks \<longrightarrow>
                    (\<exists>s'. shadowtorpreload_init t a hdl nLocks s = Returns s'
                       \<and> threadPreloadWorkerKey s' = threadPreloadWorkerKey (setWorker t w' s1)))))"
proof (intro conjI impI)
  assume "\<not> (\<forall>nm\<in>set mandatory_symbols. g_module_symbol hdl nm)"
  then show "\<exists>nm\<in>set mandatory_symbols. \<not> g_module_symbol hdl nm
               \<and> shadowtorpreload_init t a hdl nLocks s = Fatal (Assert_failed nm)"
    by (rule init_missing)
next
  assume all: "\<forall>nm\<in>set mandatory_symbols. g_module_symbol hdl nm"
  from init_resolved [OF all gw, of nLocks] obtain w' where
    run: "shadowtorpreload_init t a hdl nLocks s = shadowtorpreload_cryptoSetup nLocks (setWorker t w' s1)"
    and rest: "map_of (threadPreloadWorkerKey (setWorker t w' s1)) t = Some (p, w')
           \<and> handle w' = Some hdl \<and> consensusCounter w' = consensusCounter w
           \<and> vt_spawn_func (vtable w') = sym_spawn_func hdl
           \<and> vt_write_str_to_file (vtable w') = sym_write_str_to_file hdl
           \<and> vt_crypto_global_init (vtable w') = sym_crypto_global_init hdl
           \<and> vt_crypto_global_cleanup (vtable w') = sym_crypto_global_cleanup hdl
           \<and> vt_tor_ssl_global_init (vtable w') = sym_tor_ssl_global_init hdl
           \<and> vt_crypto_early_init (vtable w') = sym_crypto_early_init hdl
           \<and> vt_crypto_seed_rng (vtable w') = sym_crypto_seed_rng hdl
           \<and> vt_crypto_init_siphash_key (vtable w') = sym_crypto_init_siphash_key hdl"
    by blast
  have ret: "0 \<le> sint nLocks \<longrightarrow>
      (\<exists>s'. shadowtorpreload_init t a hdl nLocks s = Returns s' \<and> threadPreloadWorkerKey s' = threadPreloadWorkerKey (setWorker t w' s1))"
  proof
    assume "0 \<le> sint nLocks"
    from cryptoSetup_returns [OF this, of "setWorker t w' s1"] obtain s' where
      "shadowtorpreload_cryptoSetup nLocks (setWorker t w' s1) = Returns s'" by blast
    with cryptoSetup_tls [OF this] run show
      "\<exists>s'. shadowtorpreload_init t a hdl nLocks s = Returns s' \<and> threadPreloadWorkerKey s' = threadPreloadWorkerKey (setWorker t w' s1)"
      by simp
  qed
  from run rest ret show "\<exists>w'. shadowtorpreload_init t a hdl nLocks s = shadowtorpreload_cryptoSetup nLocks (setWorker t w' s1)
               \<and> map_of (threadPreloadWorkerKey (setWorker t w' s1)) t = Some (p, w')
               \<and> handle w' = Some hdl \<and> consensusCounter w' = consensusCounter w
               \<and> vt_spawn_func (vtable w') = sym_spawn_func hdl
               \<and> vt_write_str_to_file (vtable w') = sym_write_str_to_file hdl
               \<and> vt_crypto_global_init (vtable w') = sym_crypto_global_init hdl
               \<and> vt_crypto_global_cleanup (vtable w') = sym_crypto_global_cleanup hdl
               \<and> vt_tor_ssl_global_init (vtable w') = sym_tor_ssl_global_init hdl
               \<and> vt_crypto_early_init (vtable w') = sym_crypto_early_init hdl
               \<and> vt_crypto_seed_rng (vtable w') = sym_crypto_seed_rng hdl
               \<and> vt_crypto_init_siphash_key (vtable w') = sym_crypto_init_siphash_key hdl
               \<and> (0 \<le> sint nLocks \<longrightarrow>
                    (\<exists>s'. shadowtorpreload_init t a hdl nLocks s = Returns s'
                       \<and> threadPreloadWorkerKey s' = threadPreloadWorkerKey (setWorker t w' s1)))"
    by blast
qed

text \<open>
  A module without \<open>crypto_global_cleanup\<close>, and a module of an older release without
  the three optional names.
\<close>

theorem shadowtorpreload_init_symbols_witness:
  "shadowtorpreload_init 1 100 broken_module 2 sys_state0 = Fatal (Assert_failed ''crypto_global_cleanup'')
   \<and> (\<exists>s' w'. shadowtorpreload_init 1 100 old_module 2 sys_state0 = Returns s'
         \<and> map_of (threadPreloadWorkerKey s') 1 = Some (100, w')
         \<and> vt_crypto_early_init (vtable w') = None
         \<and> vt_crypto_seed_rng (vtable w') = None
         \<and> vt_crypto_init_siphash_key (vtable w') = None
         \<and> vt_crypto_global_cleanup (vtable w') \<noteq> None)"
proof -
  let ?s1 = "sys_state0\<lparr> threadPreloadWorkerKey := [(1, 100, new0_PreloadWorker)] \<rparr>"
  have gw: "shadowtorpreload_getWorker 1 100 sys_state0 = ((100, new0_PreloadWorker), ?s1)"
    by (simp add: shadowtorpreload_getWorker_def sys_state0_def)
  have broken: "\<not> (\<forall>nm\<in>set mandatory_symbols. g_module_symbol broken_module nm)"
    by (simp add: mandatory_symbols_def g_module_symbol_def broken_module_def full_module_def)
  have old: "\<forall>nm\<in>set mandatory_symbols. g_module_symbol old_module nm"
    by (simp add: mandatory_symbols_def g_module_symbol_def old_module_def full_module_def)
  have pos: "0 \<le> sint (2 :: gint)" by simp
  from shadowtorpreload_init_symbols [OF gw, of broken_module 2, THEN conjunct1, THEN mp, OF broken]
  have a: "shadowtorpreload_init 1 100 broken_module 2 sys_state0
      = Fatal (Assert_failed ''crypto_global_cleanup'')"
    by (auto simp: mandatory_symbols_def g_module_symbol_def broken_module_def full_module_def)
  from shadowtorpreload_init_symbols [OF gw, of old_module 2, THEN conjunct2, THEN mp, OF old]
  have b: "\<exists>s' w'. shadowtorpreload_init 1 100 old_module 2 sys_state0 = Returns s'
         \<and> map_of (threadPreloadWorkerKey s') 1 = Some (100, w')
         \<and> vt_crypto_early_init (vtable w') = None
         \<and> vt_crypto_seed_rng (vtable w') = None
         \<and> vt_crypto_init_siphash_key (vtable w') = None
         \<and> vt_crypto_global_cleanup (vtable w') \<noteq> None"
    using pos by (auto simp: old_module_def full_module_def)
  from a b show ?thesis by (rule conjI)
qed

subsection \<open>The lock array\<close>

lemma mode_op_values:
  "mode_op (CRYPTO_LOCK OR CRYPTO_READ) = Some Reader_lock"
  "mode_op (CRYPTO_LOCK OR CRYPTO_WRITE) = Some Writer_lock"
  "mode_op (CRYPTO_UNLOCK OR CRYPTO_READ) = Some Reader_unlock"
  "mode_op (CRYPTO_UNLOCK OR CRYPTO_WRITE) = Some Writer_unlock"
  by (simp_all add: mode_op_def CRYPTO_LOCK_def CRYPTO_UNLOCK_def CRYPTO_READ_def CRYPTO_WRITE_def)

lemma init_loop_gen:
  "i \<le> n \<Longrightarrow> length locks = n \<Longrightarrow>
   g_rw_lock_init_loop i n locks = take i locks @ replicate (n - i) RW_initialised"
proof (induction i n locks rule: g_rw_lock_init_loop.induct)
  case (1 i n locks)
  show ?case
  proof (cases "i < n")
    case True
    with "1.prems" have len: "length (locks[i := RW_initialised]) = n" by simp
    from True have le: "Suc i \<le> n" by simp
    have "g_rw_lock_init_loop i n locks = g_rw_lock_init_loop (Suc i) n (locks[i := RW_initialised])"
      using True by (subst g_rw_lock_init_loop.simps) simp
    also have "\<dots> = take (Suc i) (locks[i := RW_initialised]) @ replicate (n - Suc i) RW_initialised"
      using "1.IH" [OF True le len] .
    also have "take (Suc i) (locks[i := RW_initialised]) = take i locks @ [RW_initialised]"
      using True "1.prems" by (simp add: take_Suc_conv_app_nth)
    also have "(take i locks @ [RW_initialised]) @ replicate (n - Suc i) RW_initialised
        = take i locks @ replicate (n - i) RW_initialised"
      using True by (simp add: replicate_Suc [symmetric] Suc_diff_Suc del: replicate_Suc)
    finally show ?thesis .
  next
    case False
    with "1.prems" have "i = n" by simp
    then show ?thesis
      using "1.prems" by (subst g_rw_lock_init_loop.simps) simp
  qed
qed

lemma init_loop_all:
  "g_rw_lock_init_loop 0 n (replicate n RW_zeroed) = replicate n RW_initialised"
  by (simp add: init_loop_gen)

text \<open>
  C3, as the code has it. The locking callback asserts that the lock array has been
  set up: called while \<open>initialized\<close> is clear it aborts on that assertion, and so it
  does for index 0 when the flag is set over a null array. The index is compared with
  nothing. With the array present and \<open>0 \<le> n < length\<close>, acquire+read calls
  \<open>g_rw_lock_reader_lock\<close> on cell \<open>n\<close>, acquire+write \<open>g_rw_lock_writer_lock\<close>,
  release+read \<open>g_rw_lock_reader_unlock\<close> and release+write \<open>g_rw_lock_writer_unlock\<close>,
  and the call returns.
\<close>

theorem cryptoLockingFunc_contract:
  "(\<not> initialized (shadowtorpreloadGlobalState s) \<longrightarrow>
      shadowtorpreload_cryptoLockingFunc mode n s = Fatal (Assert_failed ''shadowtorpreloadGlobalState.initialized''))
   \<and> (initialized (shadowtorpreloadGlobalState s) \<and> cryptoThreadLocks (shadowtorpreloadGlobalState s) = None \<and> n = 0 \<longrightarrow>
      shadowtorpreload_cryptoLockingFunc mode n s = Fatal (Assert_failed ''lock''))
   \<and> (initialized (shadowtorpreloadGlobalState s) \<and> cryptoThreadLocks (shadowtorpreloadGlobalState s) = Some locks
        \<and> 0 \<le> sint n \<and> sint n < int (length locks) \<longrightarrow>
        shadowtorpreload_cryptoLockingFunc (CRYPTO_LOCK OR CRYPTO_READ) n s =
          Returns (emit [G_rw_lock_reader_lock (nat (sint n))] s)
      \<and> shadowtorpreload_cryptoLockingFunc (CRYPTO_LOCK OR CRYPTO_WRITE) n s =
          Returns (emit [G_rw_lock_writer_lock (nat (sint n))] s)
      \<and> shadowtorpreload_cryptoLockingFunc (CRYPTO_UNLOCK OR CRYPTO_READ) n s =
          Returns (emit [G_rw_lock_reader_unlock (nat (sint n))] s)
      \<and> shadowtorpreload_cryptoLockingFunc (CRYPTO_UNLOCK OR CRYPTO_WRITE) n s =
          Returns (emit [G_rw_lock_writer_unlock (nat (sint n))] s))"
  by (simp add: shadowtorpreload_cryptoLockingFunc_def Let_def mode_op_values lock_event_def)

text \<open>A call before any setup, and the four modes on cell 1 of a two-cell array.\<close>

theorem cryptoLockingFunc_contract_witness:
  "shadowtorpreload_cryptoLockingFunc CRYPTO_LOCK 0 sys_state0
     = Fatal (Assert_failed ''shadowtorpreloadGlobalState.initialized'')
   \<and> shadowtorpreload_cryptoLockingFunc (CRYPTO_LOCK OR CRYPTO_READ) 1 two_locks_state
     = Returns (emit [G_rw_lock_reader_lock 1] two_locks_state)
   \<and> shadowtorpreload_cryptoLockingFunc (CRYPTO_LOCK OR CRYPTO_WRITE) 1 two_locks_state
     = Returns (emit [G_rw_lock_writer_lock 1] two_locks_state)
   \<and> shadowtorpreload_cryptoLockingFunc (CRYPTO_UNLOCK OR CRYPTO_READ) 1 two_locks_state
     = Returns (emit [G_rw_lock_reader_unlock 1] two_locks_state)
   \<and> shadowtorpreload_cryptoLockingFunc (CRYPTO_UNLOCK OR CRYPTO_WRITE) 1 two_locks_state
     = Returns (emit [G_rw_lock_writer_unlock 1] two_locks_state)"
proof -
  have off: "\<not> initialized (shadowtorpreloadGlobalState sys_state0)"
    by (simp add: sys_state0_def shadowtorpreloadGlobalState0_def)
  have on: "initialized (shadowtorpreloadGlobalState two_locks_state)
      \<and> cryptoThreadLocks (shadowtorpreloadGlobalState two_locks_state) = Some [RW_initialised, RW_initialised]
      \<and> 0 \<le> sint (1 :: gint) \<and> sint (1 :: gint) < int (length [RW_initialised, RW_initialised])"
    by (simp add: two_locks_state_def)
  from cryptoLockingFunc_contract [of sys_state0 CRYPTO_LOCK 0, THEN conjunct1, THEN mp, OF off]
  have a: "shadowtorpreload_cryptoLockingFunc CRYPTO_LOCK 0 sys_state0
     = Fatal (Assert_failed ''shadowtorpreloadGlobalState.initialized'')" .
  from cryptoLockingFunc_contract [of two_locks_state _ 1 "[RW_initialised, RW_initialised]",
      THEN conjunct2, THEN conjunct2, THEN mp, OF on]
  show ?thesis using a by simp
qed

text \<open>
  After a setup of two locks, index 5 with acquire+read: neither assertion fails (the
  flag is set and the address is not null), and the reader lock is taken on memory
  outside the array.
\<close>

theorem cryptoLockingFunc_index_counterexample:
  "shadowtorpreload_cryptoSetup 2 sys_state0 = Returns two_locks_state
   \<and> shadowtorpreload_cryptoLockingFunc (CRYPTO_LOCK OR CRYPTO_READ) 5 two_locks_state =
       Undefined (Out_of_bounds_lock 5)"
proof -
  have "g_rw_lock_init_loop 0 2 (replicate 2 RW_zeroed) = replicate 2 RW_initialised"
    by (rule init_loop_all)
  then have built: "shadowtorpreload_cryptoSetup 2 sys_state0 = Returns two_locks_state"
    by (simp add: shadowtorpreload_cryptoSetup_def Let_def sys_state0_def
        shadowtorpreloadGlobalState0_def two_locks_state_def emit_def numeral_2_eq_2)
  have locked: "shadowtorpreload_cryptoLockingFunc (CRYPTO_LOCK OR CRYPTO_READ) 5 two_locks_state =
      Undefined (Out_of_bounds_lock 5)"
    by (simp add: shadowtorpreload_cryptoLockingFunc_def Let_def mode_op_values two_locks_state_def)
  from built locked show ?thesis by (rule conjI)
qed

lemma run_bridge_append:
  "run_bridge (xs @ ys) s =
     (case run_bridge xs s of
        Returns s1 \<Rightarrow> run_bridge ys s1
      | Fatal e \<Rightarrow> Fatal e
      | Undefined x \<Rightarrow> Undefined x)"
  by (induction xs arbitrary: s) (auto split: outcome.splits)

lemma setup_first:
  assumes "\<not> initialized (shadowtorpreloadGlobalState s)" "nThreads (shadowtorpreloadGlobalState s) = 0" "0 < sint c"
  shows "shadowtorpreload_cryptoSetup c s = Returns (live_state s c 1)"
  using assms
  by (simp add: shadowtorpreload_cryptoSetup_def Let_def live_state_def emit_def init_loop_all)

lemma setup_live: "shadowtorpreload_cryptoSetup c' (live_state s c k) = Returns (live_state s c (Suc k))"
  by (simp add: shadowtorpreload_cryptoSetup_def Let_def live_state_def)

lemma setups_live:
  "run_bridge (map Setup cs) (live_state s c k) = Returns (live_state s c (k + length cs))"
  by (induction cs arbitrary: k) (simp_all add: setup_live)

lemma of_nat_gint_eq_0: "k < 2 ^ 31 \<Longrightarrow> (of_nat k :: gint) = 0 \<longleftrightarrow> k = 0"
proof -
  assume "k < 2 ^ 31"
  then have "k < 2 ^ LENGTH(32)" by simp
  then have "unat (of_nat k :: gint) = k"
    by (rule of_nat_inverse [OF refl])
  then show ?thesis by (metis unat_0 semiring_1_class.of_nat_0)
qed

lemma sint_of_nat_gint: "k < 2 ^ 31 \<Longrightarrow> sint (of_nat k :: gint) = int k"
  by (simp add: signed_of_nat signed_take_bit_int_eq_self)

lemma teardown_live:
  assumes "0 < sint c" "k < 2 ^ 31"
  shows "shadowtorpreload_cryptoTeardown (live_state s c (Suc k)) =
           Returns (if k = 0 then torn_state s c else live_state s c k)"
  using assms of_nat_gint_eq_0 [of k]
  by (simp add: shadowtorpreload_cryptoTeardown_def Let_def live_state_def torn_state_def emit_def)

lemma teardowns_live:
  "0 < sint c \<Longrightarrow> k < 2 ^ 31 \<Longrightarrow> j \<le> k \<Longrightarrow>
   run_bridge (replicate j Teardown) (live_state s c (Suc k)) =
     Returns (live_state s c (Suc k - j))"
proof (induction j arbitrary: k)
  case 0
  then show ?case by simp
next
  case (Suc j)
  then obtain k' where k: "k = Suc k'" by (cases k) auto
  with Suc.prems have "k' < 2 ^ 31" "j \<le> k'" by simp_all
  from Suc.IH [OF Suc.prems(1) this] Suc.prems show ?case
    by (simp add: teardown_live k)
qed

lemma teardowns_all:
  assumes "0 < sint c" "k < 2 ^ 31"
  shows "run_bridge (replicate (Suc k) Teardown) (live_state s c (Suc k)) = Returns (torn_state s c)"
proof -
  have "replicate (Suc k) Teardown = replicate k Teardown @ [Teardown]"
    by (simp add: replicate_append_same)
  then show ?thesis
    using teardowns_live [OF assms, of k s] assms
    by (simp add: run_bridge_append teardown_live [of c 0 s, simplified] del: replicate_Suc)
qed

text \<open>
  C5, as the code has it. Start with the array absent and no thread counted, and let
  \<open>N\<close> setups be followed by \<open>N\<close> teardowns, where the first setup asks for at least
  one lock and \<open>N\<close> is within the range of the 32-bit counter. After every setup the
  array is the one allocated by the first setup, with the first call's lock count, and
  the trace holds that single allocation (later counts are ignored). After each of the
  first \<open>N - 1\<close> teardowns the same holds, with the thread count still positive. The
  \<open>N\<close>th teardown frees the array, once: the array is then absent and the thread count
  is 0. So after every operation the array is present exactly when the thread count is
  positive. A setup after the full teardown allocates again.
\<close>

theorem lock_array_lifecycle:
  assumes off: "\<not> initialized (shadowtorpreloadGlobalState s)"
      and zero: "nThreads (shadowtorpreloadGlobalState s) = 0"
      and pos: "0 < sint c"
      and bound: "Suc (length cs) < 2 ^ 31"
  shows "(\<forall>k\<le>length cs.
            run_bridge (map Setup (c # take k cs)) s = Returns (live_state s c (Suc k)))
       \<and> (\<forall>j\<le>length cs.
            run_bridge (map Setup (c # cs) @ replicate j Teardown) s
              = Returns (live_state s c (Suc (length cs) - j)))
       \<and> run_bridge (map Setup (c # cs) @ replicate (Suc (length cs)) Teardown) s
            = Returns (torn_state s c)
       \<and> (\<forall>k. 0 < k \<and> k < 2 ^ 31 \<longrightarrow>
            cryptoThreadLocks (shadowtorpreloadGlobalState (live_state s c k))
              = Some (replicate (nat (sint c)) RW_initialised)
          \<and> 0 < sint (nThreads (shadowtorpreloadGlobalState (live_state s c k)))
          \<and> trace (live_state s c k) = trace s @ [G_new0_locks (nat (sint c))])
       \<and> cryptoThreadLocks (shadowtorpreloadGlobalState (torn_state s c)) = None
       \<and> nThreads (shadowtorpreloadGlobalState (torn_state s c)) = 0
       \<and> trace (torn_state s c) = trace s @ [G_new0_locks (nat (sint c)), G_free_locks]
       \<and> (\<forall>c'. 0 < sint c' \<longrightarrow>
            shadowtorpreload_cryptoSetup c' (torn_state s c) = Returns (live_state (torn_state s c) c' 1))"
proof -
  have first: "shadowtorpreload_cryptoSetup c s = Returns (live_state s c 1)"
    by (rule setup_first [OF off zero pos])
  have ups: "run_bridge (map Setup (c # xs)) s = Returns (live_state s c (Suc (length xs)))" for xs
    using setups_live [of xs s c 1] by (simp add: first)
  have a: "\<forall>k\<le>length cs.
      run_bridge (map Setup (c # take k cs)) s = Returns (live_state s c (Suc k))"
    using ups by (simp add: min_def)
  have b: "\<forall>j\<le>length cs.
      run_bridge (map Setup (c # cs) @ replicate j Teardown) s
        = Returns (live_state s c (Suc (length cs) - j))"
  proof (intro allI impI)
    fix j assume j: "j \<le> length cs"
    from bound have "length cs < 2 ^ 31" by simp
    from teardowns_live [OF pos this j, of s] ups [of cs]
    show "run_bridge (map Setup (c # cs) @ replicate j Teardown) s
        = Returns (live_state s c (Suc (length cs) - j))"
      by (simp only: run_bridge_append outcome.case)
  qed
  have c: "run_bridge (map Setup (c # cs) @ replicate (Suc (length cs)) Teardown) s
      = Returns (torn_state s c)"
  proof -
    from bound have "length cs < 2 ^ 31" by simp
    from teardowns_all [OF pos this, of s] ups [of cs] show ?thesis
      by (simp only: run_bridge_append outcome.case)
  qed
  have d: "\<forall>k. 0 < k \<and> k < 2 ^ 31 \<longrightarrow>
            cryptoThreadLocks (shadowtorpreloadGlobalState (live_state s c k))
              = Some (replicate (nat (sint c)) RW_initialised)
          \<and> 0 < sint (nThreads (shadowtorpreloadGlobalState (live_state s c k)))
          \<and> trace (live_state s c k) = trace s @ [G_new0_locks (nat (sint c))]"
    by (simp add: live_state_def sint_of_nat_gint)
  have e: "cryptoThreadLocks (shadowtorpreloadGlobalState (torn_state s c)) = None
       \<and> nThreads (shadowtorpreloadGlobalState (torn_state s c)) = 0
       \<and> trace (torn_state s c) = trace s @ [G_new0_locks (nat (sint c)), G_free_locks]"
    by (simp add: torn_state_def)
  have f: "\<forall>c'. 0 < sint c' \<longrightarrow>
            shadowtorpreload_cryptoSetup c' (torn_state s c) = Returns (live_state (torn_state s c) c' 1)"
    by (intro allI impI setup_first) (simp_all add: torn_state_def)
  from a b c d e f show ?thesis by blast
qed

text \<open>
  Two threads set up 16 locks and tear down in turn; a later setup asks for 4.
\<close>

theorem lock_array_lifecycle_witness:
  "run_bridge [Setup 16, Setup 16, Teardown] sys_state0 = Returns (live_state sys_state0 16 1)
   \<and> run_bridge [Setup 16, Setup 16, Teardown, Teardown] sys_state0
       = Returns (torn_state sys_state0 16)
   \<and> cryptoThreadLocks (shadowtorpreloadGlobalState (live_state sys_state0 16 1)) = Some (replicate 16 RW_initialised)
   \<and> 0 < sint (nThreads (shadowtorpreloadGlobalState (live_state sys_state0 16 1)))
   \<and> trace (live_state sys_state0 16 1) = [G_new0_locks 16]
   \<and> cryptoThreadLocks (shadowtorpreloadGlobalState (torn_state sys_state0 16)) = None
   \<and> nThreads (shadowtorpreloadGlobalState (torn_state sys_state0 16)) = 0
   \<and> trace (torn_state sys_state0 16) = [G_new0_locks 16, G_free_locks]
   \<and> shadowtorpreload_cryptoSetup 4 (torn_state sys_state0 16) = Returns (live_state (torn_state sys_state0 16) 4 1)"
proof -
  have off: "\<not> initialized (shadowtorpreloadGlobalState sys_state0)"
    and zero: "nThreads (shadowtorpreloadGlobalState sys_state0) = 0"
    and tr: "trace sys_state0 = []"
    by (simp_all add: sys_state0_def shadowtorpreloadGlobalState0_def)
  have pos: "0 < sint (16 :: gint)" "0 < sint (4 :: gint)" by simp_all
  have bound: "Suc (length [16 :: gint]) < 2 ^ 31" by simp
  note T = lock_array_lifecycle [OF off zero pos(1) bound]
  from T [THEN conjunct2, THEN conjunct1, rule_format, of 1]
  have a: "run_bridge [Setup 16, Setup 16, Teardown] sys_state0 = Returns (live_state sys_state0 16 1)"
    by simp
  from T [THEN conjunct2, THEN conjunct2, THEN conjunct1]
  have b: "run_bridge [Setup 16, Setup 16, Teardown, Teardown] sys_state0
       = Returns (torn_state sys_state0 16)"
    by (simp add: numeral_2_eq_2)
  from T [THEN conjunct2, THEN conjunct2, THEN conjunct2, THEN conjunct1, rule_format, of 1]
  have c: "cryptoThreadLocks (shadowtorpreloadGlobalState (live_state sys_state0 16 1)) = Some (replicate 16 RW_initialised)
      \<and> 0 < sint (nThreads (shadowtorpreloadGlobalState (live_state sys_state0 16 1)))
      \<and> trace (live_state sys_state0 16 1) = [G_new0_locks 16]"
    by (simp add: tr)
  from T [THEN conjunct2, THEN conjunct2, THEN conjunct2, THEN conjunct2]
  have d: "cryptoThreadLocks (shadowtorpreloadGlobalState (torn_state sys_state0 16)) = None
      \<and> nThreads (shadowtorpreloadGlobalState (torn_state sys_state0 16)) = 0
      \<and> trace (torn_state sys_state0 16) = [G_new0_locks 16, G_free_locks]
      \<and> shadowtorpreload_cryptoSetup 4 (torn_state sys_state0 16) = Returns (live_state (torn_state sys_state0 16) 4 1)"
    using pos(2) by (simp add: tr)
  from a b c d show ?thesis by blast
qed

text \<open>
  A setup asking for 0 locks: \<open>g_new0\<close> yields the null pointer while \<open>initialized\<close>
  is set and the thread is counted. The teardown that follows stops at the null
  pointer before the decrement, so the count stays at 1 with no array and nothing is
  freed; and as the flag stays set, a later setup asking for 16 locks allocates
  nothing.
\<close>

theorem lock_array_zero_locks_counterexample:
  "run_bridge [Setup 0, Teardown] sys_state0 =
     Returns \<lparr> shadowtorpreloadGlobalState = \<lparr> initialized = True, sslInitializedEarly = False,
                 sslInitializedGlobal = False, nTorCryptoNodes = 0, nThreads = 1,
                 numCryptoThreadLocks = 0, cryptoThreadLocks = None \<rparr>,
               threadPreloadWorkerKey = [], trace = [G_new0_locks 0] \<rparr>
   \<and> run_bridge [Setup 0, Teardown, Setup 16] sys_state0 =
     Returns \<lparr> shadowtorpreloadGlobalState = \<lparr> initialized = True, sslInitializedEarly = False,
                 sslInitializedGlobal = False, nTorCryptoNodes = 0, nThreads = 2,
                 numCryptoThreadLocks = 0, cryptoThreadLocks = None \<rparr>,
               threadPreloadWorkerKey = [], trace = [G_new0_locks 0] \<rparr>"
  by (simp add: shadowtorpreload_cryptoSetup_def shadowtorpreload_cryptoTeardown_def Let_def sys_state0_def
      shadowtorpreloadGlobalState0_def emit_def)

subsection \<open>Thread identification\<close>

lemma snd_exec_getID: "snd (exec_thread_event (Call_getID t a) s) = snd (shadowtorpreload_getIDFunc t a s)"
  by (auto split: prod.splits)

lemma snd_run_threads_Cons:
  "snd (run_threads (e # evs) s) = snd (run_threads evs (snd (exec_thread_event e s)))"
  by (auto split: prod.splits)

lemma fst_run_threads_Cons:
  "fst (run_threads (e # evs) s) =
     fst (exec_thread_event e s) # fst (run_threads evs (snd (exec_thread_event e s)))"
  by (auto split: prod.splits)

lemma run_threads_append:
  "run_threads (xs @ ys) s =
     (case run_threads xs s of
        (o1, s1) \<Rightarrow> (case run_threads ys s1 of (o2, s2) \<Rightarrow> (o1 @ o2, s2)))"
  by (induction xs arbitrary: s) (simp_all split: prod.splits)

lemma contract_append:
  "g_new0_contract (xs @ ys) s =
     (g_new0_contract xs s \<and> g_new0_contract ys (snd (run_threads xs s)))"
  by (induction xs arbitrary: s) (simp_all split: prod.splits)

lemma length_run_threads: "length (fst (run_threads xs s)) = length xs"
  by (induction xs arbitrary: s) (simp_all add: fst_run_threads_Cons del: run_threads.simps(2))

lemma getIDFunc_slot:
  "shadowtorpreload_getIDFunc t a s = (x, s1) \<Longrightarrow> \<exists>w. map_of (threadPreloadWorkerKey s1) t = Some (x, w)"
  by (auto simp: shadowtorpreload_getIDFunc_def shadowtorpreload_getWorker_def Let_def split: option.splits prod.splits)

lemma getIDFunc_present:
  "map_of (threadPreloadWorkerKey s) t = Some (x, w) \<Longrightarrow> shadowtorpreload_getIDFunc t a s = (x, s)"
  by (simp add: shadowtorpreload_getIDFunc_def shadowtorpreload_getWorker_def)

lemma getIDFunc_absent:
  "map_of (threadPreloadWorkerKey s) t = None \<Longrightarrow> fst (shadowtorpreload_getIDFunc t a s) = a"
  by (simp add: shadowtorpreload_getIDFunc_def shadowtorpreload_getWorker_def)

lemma getIDFunc_keeps:
  "map_of (threadPreloadWorkerKey s) u = Some pw \<Longrightarrow> map_of (threadPreloadWorkerKey (snd (shadowtorpreload_getIDFunc t a s))) u = Some pw"
  by (auto simp: shadowtorpreload_getIDFunc_def shadowtorpreload_getWorker_def Let_def split: option.splits)

lemma getIDFunc_distinct:
  assumes "distinct (live_addrs s)"
      and "if map_of (threadPreloadWorkerKey s) t = None then a \<noteq> 0 \<and> a \<notin> set (live_addrs s) else True"
  shows "distinct (live_addrs (snd (shadowtorpreload_getIDFunc t a s)))"
  using assms
  by (auto simp: shadowtorpreload_getIDFunc_def shadowtorpreload_getWorker_def Let_def live_addrs_def split: option.splits if_splits)

lemma threadExit_distinct:
  "distinct (live_addrs s) \<Longrightarrow> distinct (live_addrs (threadExit t s))"
  by (simp add: live_addrs_def threadExit_def distinct_map_filter)

lemma threadExit_keeps:
  "u \<noteq> t \<Longrightarrow> map_of (threadPreloadWorkerKey (threadExit t s)) u = map_of (threadPreloadWorkerKey s) u"
proof -
  have "u \<noteq> t \<Longrightarrow> map_of (filter (\<lambda>(k, p, v). k \<noteq> t) l) u = map_of l u" for l
    by (induction l) auto
  then show "u \<noteq> t \<Longrightarrow> map_of (threadPreloadWorkerKey (threadExit t s)) u = map_of (threadPreloadWorkerKey s) u"
    by (simp add: threadExit_def)
qed

lemma exec_thread_event_distinct:
  "distinct (live_addrs s) \<Longrightarrow> g_new0_fresh e s \<Longrightarrow>
   distinct (live_addrs (snd (exec_thread_event e s)))"
proof (cases e)
  case (Call_getID t a)
  assume "distinct (live_addrs s)" "g_new0_fresh e s"
  with Call_getID getIDFunc_distinct [of s t a] show ?thesis
    by (simp add: snd_exec_getID del: exec_thread_event.simps)
next
  case (Thread_exit t)
  assume "distinct (live_addrs s)"
  with Thread_exit show ?thesis by (simp add: threadExit_distinct)
qed

lemma run_threads_distinct:
  "distinct (live_addrs s) \<Longrightarrow> g_new0_contract xs s \<Longrightarrow>
   distinct (live_addrs (snd (run_threads xs s)))"
proof (induction xs arbitrary: s)
  case Nil
  then show ?case by simp
next
  case (Cons e xs)
  from Cons.prems have "distinct (live_addrs (snd (exec_thread_event e s)))"
    by (simp add: exec_thread_event_distinct)
  moreover from Cons.prems have "g_new0_contract xs (snd (exec_thread_event e s))" by simp
  ultimately have "distinct (live_addrs (snd (run_threads xs (snd (exec_thread_event e s)))))"
    by (rule Cons.IH)
  then show ?case by (simp add: snd_run_threads_Cons del: run_threads.simps(2))
qed

lemma exec_thread_event_keeps:
  "map_of (threadPreloadWorkerKey s) t = Some pw \<Longrightarrow> e \<noteq> Thread_exit t \<Longrightarrow>
   map_of (threadPreloadWorkerKey (snd (exec_thread_event e s))) t = Some pw"
proof (cases e)
  case (Call_getID u a)
  assume "map_of (threadPreloadWorkerKey s) t = Some pw"
  from getIDFunc_keeps [OF this, of u a] Call_getID show ?thesis
    by (simp add: snd_exec_getID del: exec_thread_event.simps)
next
  case (Thread_exit u)
  assume "map_of (threadPreloadWorkerKey s) t = Some pw" "e \<noteq> Thread_exit t"
  with Thread_exit show ?thesis by (simp add: threadExit_keeps)
qed

lemma run_threads_keeps:
  "map_of (threadPreloadWorkerKey s) t = Some pw \<Longrightarrow> Thread_exit t \<notin> set xs \<Longrightarrow>
   map_of (threadPreloadWorkerKey (snd (run_threads xs s))) t = Some pw"
proof (induction xs arbitrary: s)
  case Nil
  then show ?case by simp
next
  case (Cons e xs)
  from Cons.prems have "e \<noteq> Thread_exit t" "Thread_exit t \<notin> set xs" by auto
  from Cons.IH [OF exec_thread_event_keeps [OF Cons.prems(1) this(1)] this(2)]
  show ?case by (simp add: snd_run_threads_Cons del: run_threads.simps(2))
qed

lemma slot_addr_live:
  "map_of (threadPreloadWorkerKey s) t = Some (x, w) \<Longrightarrow> x \<in> set (live_addrs s)"
  by (force simp: live_addrs_def dest: map_of_SomeD)

lemma slots_injective:
  assumes "distinct (live_addrs s)"
      and "map_of (threadPreloadWorkerKey s) t = Some (x, w)" "map_of (threadPreloadWorkerKey s) u = Some (y, v)" "t \<noteq> u"
  shows "x \<noteq> y"
proof
  assume "x = y"
  from assms(2) have m1: "(t, x, w) \<in> set (threadPreloadWorkerKey s)" by (rule map_of_SomeD)
  from assms(3) have m2: "(u, y, v) \<in> set (threadPreloadWorkerKey s)" by (rule map_of_SomeD)
  from assms(1) have "inj_on (\<lambda>(u, p, v). p) (set (threadPreloadWorkerKey s))"
    by (simp add: live_addrs_def distinct_map)
  from inj_onD [OF this _ m1 m2] \<open>x = y\<close> have "(t, x, w) = (u, y, v)" by simp
  with \<open>t \<noteq> u\<close> show False by simp
qed

text \<open>
  C9. Start with the live worker blocks at pairwise distinct addresses and let threads
  ask for their id and exit in any order, the allocator handing out blocks that are not
  null and not currently allocated. Take two id calls of the run, the first by thread
  \<open>t\<close>, the second by thread \<open>u\<close>, such that \<open>t\<close> does not exit in between (its worker
  is still live when \<open>u\<close> calls). Then both calls return an id, and the two ids are equal
  exactly when \<open>t\<close> and \<open>u\<close> are the same thread: the same thread gets the same id
  again, two distinct live threads get distinct ids.
\<close>

theorem getIDFunc_stable_and_unique:
  assumes inv: "distinct (live_addrs s)"
      and contract: "g_new0_contract (pre @ Call_getID t a # mid @ Call_getID u b # post) s"
      and alive: "Thread_exit t \<notin> set mid"
  shows "\<exists>ids1 x ids2 y ids3.
           fst (run_threads (pre @ Call_getID t a # mid @ Call_getID u b # post) s)
             = ids1 @ Some x # ids2 @ Some y # ids3
         \<and> length ids1 = length pre \<and> length ids2 = length mid
         \<and> (x = y) = (t = u)"
proof -
  obtain ids1 s1 where r1: "run_threads pre s = (ids1, s1)" by (cases "run_threads pre s")
  obtain x s2 where g2: "shadowtorpreload_getIDFunc t a s1 = (x, s2)" by (cases "shadowtorpreload_getIDFunc t a s1")
  obtain ids2 s3 where r3: "run_threads mid s2 = (ids2, s3)" by (cases "run_threads mid s2")
  obtain y s4 where g4: "shadowtorpreload_getIDFunc u b s3 = (y, s4)" by (cases "shadowtorpreload_getIDFunc u b s3")
  obtain ids3 s5 where r5: "run_threads post s4 = (ids3, s5)" by (cases "run_threads post s4")
  have run: "fst (run_threads (pre @ Call_getID t a # mid @ Call_getID u b # post) s)
      = ids1 @ Some x # ids2 @ Some y # ids3"
    by (simp add: run_threads_append r1 g2 r3 g4 r5)
  have len: "length ids1 = length pre" "length ids2 = length mid"
    using length_run_threads [of pre s] length_run_threads [of mid s2] r1 r3 by simp_all
  from contract have c_pre: "g_new0_contract pre s"
    and c1: "g_new0_contract (Call_getID t a # mid @ Call_getID u b # post) s1"
    using r1 by (simp_all add: contract_append)
  from c1 have c_t: "if map_of (threadPreloadWorkerKey s1) t = None then a \<noteq> 0 \<and> a \<notin> set (live_addrs s1) else True"
    and c2: "g_new0_contract (mid @ Call_getID u b # post) s2"
    using g2 by simp_all
  from c2 have c_mid: "g_new0_contract mid s2"
    and c3: "g_new0_contract (Call_getID u b # post) s3"
    using r3 by (simp_all add: contract_append)
  from c3 have c_u: "if map_of (threadPreloadWorkerKey s3) u = None then b \<noteq> 0 \<and> b \<notin> set (live_addrs s3) else True"
    by simp
  have inv1: "distinct (live_addrs s1)"
    using run_threads_distinct [OF inv c_pre] r1 by simp
  have inv2: "distinct (live_addrs s2)"
    using getIDFunc_distinct [OF inv1 c_t] g2 by simp
  have inv3: "distinct (live_addrs s3)"
    using run_threads_distinct [OF inv2 c_mid] r3 by simp
  from getIDFunc_slot [OF g2] obtain w where slot2: "map_of (threadPreloadWorkerKey s2) t = Some (x, w)" by blast
  have slot3: "map_of (threadPreloadWorkerKey s3) t = Some (x, w)"
    using run_threads_keeps [OF slot2 alive] r3 by simp
  have "(x = y) = (t = u)"
  proof (cases "t = u")
    case True
    with getIDFunc_present [OF slot3, of b] g4 show ?thesis by simp
  next
    case False
    show ?thesis
    proof (cases "map_of (threadPreloadWorkerKey s3) u")
      case None
      with getIDFunc_absent [of s3 u b] g4 have "y = b" by simp
      moreover from c_u None have "b \<notin> set (live_addrs s3)" by simp
      moreover from slot_addr_live [OF slot3] have "x \<in> set (live_addrs s3)" .
      ultimately show ?thesis using False by auto
    next
      case (Some pv)
      obtain y' v where pv: "pv = (y', v)" by (cases pv)
      with Some getIDFunc_present [of s3 u y' v b] g4 have "y = y'" by simp
      with slots_injective [OF inv3 slot3] Some pv False show ?thesis by auto
    qed
  qed
  with run len show ?thesis by blast
qed

text \<open>
  Threads 1 and 2 ask for their ids, thread 2 exits, thread 3 is given the block
  thread 2 had, and thread 1 asks again: thread 1 gets the id it had, and it differs
  from the id of thread 3.
\<close>

theorem getIDFunc_stable_and_unique_witness:
  "(\<exists>ids1 x ids2 y ids3.
      fst (run_threads [Call_getID 1 100, Call_getID 2 200, Thread_exit 2, Call_getID 3 200,
                        Call_getID 1 300] sys_state0)
        = ids1 @ Some x # ids2 @ Some y # ids3
    \<and> length ids1 = 0 \<and> length ids2 = 3 \<and> x = y)
   \<and> (\<exists>ids1 x ids2 y ids3.
      fst (run_threads [Call_getID 1 100, Call_getID 2 200, Thread_exit 2, Call_getID 3 200,
                        Call_getID 1 300] sys_state0)
        = ids1 @ Some x # ids2 @ Some y # ids3
    \<and> length ids1 = 3 \<and> length ids2 = 0 \<and> x \<noteq> y)"
proof -
  let ?evs = "[Call_getID 1 100, Call_getID 2 200, Thread_exit 2, Call_getID 3 200,
               Call_getID 1 300]"
  have inv: "distinct (live_addrs sys_state0)"
    by (simp add: live_addrs_def sys_state0_def)
  have contract: "g_new0_contract ?evs sys_state0"
    by (simp add: shadowtorpreload_getIDFunc_def shadowtorpreload_getWorker_def threadExit_def live_addrs_def sys_state0_def)
  have c1: "g_new0_contract ([] @ Call_getID 1 100
      # [Call_getID 2 200, Thread_exit 2, Call_getID 3 200] @ Call_getID 1 300 # []) sys_state0"
    using contract by simp
  have c2: "g_new0_contract ([Call_getID 1 100, Call_getID 2 200, Thread_exit 2] @ Call_getID 3 200
      # [] @ Call_getID 1 300 # []) sys_state0"
    using contract by simp
  have a1: "Thread_exit 1 \<notin> set [Call_getID 2 200, Thread_exit 2, Call_getID 3 200]" by simp
  have a2: "Thread_exit 3 \<notin> set []" by simp
  from getIDFunc_stable_and_unique [OF inv c1 a1]
  obtain ids1 x ids2 y ids3 where
    r: "fst (run_threads ([] @ Call_getID 1 100
          # [Call_getID 2 200, Thread_exit 2, Call_getID 3 200] @ Call_getID 1 300 # []) sys_state0)
        = ids1 @ Some x # ids2 @ Some y # ids3"
    and l: "length ids1 = length ([] :: thread_event list)"
       "length ids2 = length [Call_getID 2 200, Thread_exit 2, Call_getID 3 200]"
    and e: "(x = y) = ((1 :: tid) = 1)"
    by blast
  from r have r': "fst (run_threads ?evs sys_state0) = ids1 @ Some x # ids2 @ Some y # ids3"
    by (simp del: run_threads.simps)
  from l e have "length ids1 = 0" "length ids2 = 3" "x = y" by simp_all
  with r' have a: "\<exists>ids1 x ids2 y ids3.
      fst (run_threads ?evs sys_state0) = ids1 @ Some x # ids2 @ Some y # ids3
    \<and> length ids1 = 0 \<and> length ids2 = 3 \<and> x = y"
    by blast
  from getIDFunc_stable_and_unique [OF inv c2 a2]
  obtain jds1 x' jds2 y' jds3 where
    q: "fst (run_threads ([Call_getID 1 100, Call_getID 2 200, Thread_exit 2] @ Call_getID 3 200
          # [] @ Call_getID 1 300 # []) sys_state0)
        = jds1 @ Some x' # jds2 @ Some y' # jds3"
    and m: "length jds1 = length [Call_getID 1 100, Call_getID 2 200, Thread_exit 2]"
       "length jds2 = length ([] :: thread_event list)"
    and d: "(x' = y') = ((3 :: tid) = 1)"
    by blast
  from q have q': "fst (run_threads ?evs sys_state0) = jds1 @ Some x' # jds2 @ Some y' # jds3"
    by (simp del: run_threads.simps)
  from m d have "length jds1 = 3" "length jds2 = 0" "x' \<noteq> y'" by simp_all
  with q' have b: "\<exists>ids1 x ids2 y ids3.
      fst (run_threads ?evs sys_state0) = ids1 @ Some x # ids2 @ Some y # ids3
    \<and> length ids1 = 3 \<and> length ids2 = 0 \<and> x \<noteq> y"
    by blast
  from a b show ?thesis by (rule conjI)
qed

subsection \<open>The spawn stub\<close>

text \<open>
  C10. \<open>spawn_func\<close> returns -1 whatever function pointer and data it is given, and
  leaves the whole state as it was: no worker is looked up and the trace gains no
  event, so the spawn delegate resolved at bind time is never invoked.
\<close>

theorem spawn_func_returns_minus_one:
  "spawn_func func data s = Returns (- 1, s) \<and> sint (- 1 :: gint) = - 1"
  by (simp add: spawn_func_def)

end
